theory Spec2Isabelle
  imports Complex_Main
begin

section \<open>Python values shared by both engines\<close>

text \<open>
  Numbers: Python \<open>int\<close> and \<open>float\<close> values are modelled as exact numbers (\<open>int\<close>, \<open>nat\<close> for
  counts and positions that start at zero and only grow, \<open>real\<close> for floats). Float rounding,
  infinities and NaN are outside the model; the \<open>OverflowError\<close> of converting an \<open>int\<close> beyond
  the range of a \<open>float\<close> is in it. Strings are byte lists; \<open>str.lower\<close> and
  \<open>str.strip\<close> are modelled on ASCII.
\<close>

datatype py_error = ZeroDivisionError | IndexError | OverflowError | ValueError | TypeError

definition lower_char :: "char \<Rightarrow> char" where
  "lower_char c =
     (let n = (of_char c :: nat) in if 65 \<le> n \<and> n \<le> 90 then char_of (n + 32) else c)"

definition py_lower :: "string \<Rightarrow> string" where
  "py_lower s = map lower_char s"

definition is_space :: "char \<Rightarrow> bool" where
  "is_space c = (let n = (of_char c :: nat) in (9 \<le> n \<and> n \<le> 13) \<or> (28 \<le> n \<and> n \<le> 32))"

definition py_strip :: "string \<Rightarrow> string" where
  "py_strip s = rev (dropWhile is_space (rev (dropWhile is_space s)))"

text \<open>\<open>xs[:n]\<close>: a negative \<open>n\<close> counts from the end.\<close>

definition py_slice_to :: "'a list \<Rightarrow> int \<Rightarrow> 'a list" where
  "py_slice_to xs n = (if 0 \<le> n then take (nat n) xs else take (length xs - nat (- n)) xs)"

text \<open>\<open>round(x)\<close> and \<open>round(x, n)\<close>: to the nearest, a tie to the even neighbour.\<close>

definition round_half_even :: "real \<Rightarrow> int" where
  "round_half_even x =
     (let f = \<lfloor>x\<rfloor>; d = x - of_int f in
      if d < 1 / 2 then f else if 1 / 2 < d then f + 1 else if even f then f else f + 1)"

definition py_round :: "real \<Rightarrow> nat \<Rightarrow> real" where
  "py_round x n = of_int (round_half_even (x * 10 ^ n)) / 10 ^ n"

text \<open>\<open>list.sort(key=..., reverse=True)\<close>: a stable sort, largest key first.\<close>

definition sort_desc :: "('a \<Rightarrow> real) \<Rightarrow> 'a list \<Rightarrow> 'a list" where
  "sort_desc key xs = sort_key (\<lambda>x. - key x) xs"

section \<open>Engine A: \<open>src/backend/diagnose.py\<close>\<close>

text \<open>The dictionary \<open>load_dataset\<close> returns.\<close>

record dataset =
  diseases :: "string list"
  symptom_columns :: "string list"
  data_rows :: "int list list"

definition normalize_symptom_name :: "string \<Rightarrow> string" where
  "normalize_symptom_name symptom = py_strip (py_lower symptom)"

text \<open>\<open>list.index\<close>: the first position, \<open>None\<close> where Python raises \<open>ValueError\<close>.\<close>

fun list_index :: "'a list \<Rightarrow> 'a \<Rightarrow> nat option" where
  "list_index [] y = None"
| "list_index (x # xs) y = (if x = y then Some 0 else map_option Suc (list_index xs y))"

definition find_symptom_indices :: "string list \<Rightarrow> string list \<Rightarrow> nat list" where
  "find_symptom_indices symptoms cols =
     (let normalized_columns = map normalize_symptom_name cols in
      fold (\<lambda>symptom indices.
              case list_index normalized_columns (normalize_symptom_name symptom) of
                Some idx \<Rightarrow> indices @ [idx]
              | None \<Rightarrow> indices)
           symptoms [])"

text \<open>One value of the \<open>disease_scores\<close> dictionary.\<close>

record stats =
  total_score :: real
  match_count :: nat
  case_count :: nat
  exact_matches :: nat
  single_symptom_matches :: nat

definition default_stats :: stats where
  "default_stats =
     \<lparr>total_score = 0, match_count = 0, case_count = 0, exact_matches = 0,
      single_symptom_matches = 0\<rparr>"

text \<open>
  \<open>disease_scores\<close> is a \<open>defaultdict\<close>; its items come out in the order the keys were first
  touched. The model is an association list: an update changes the entry in place, a new key is
  appended with the default value updated.
\<close>

fun upd_stats :: "string \<Rightarrow> (stats \<Rightarrow> stats) \<Rightarrow> (string \<times> stats) list \<Rightarrow> (string \<times> stats) list" where
  "upd_stats d f [] = [(d, f default_stats)]"
| "upd_stats d f ((k, v) # kvs) =
     (if k = d then (k, f v) # kvs else (k, v) # upd_stats d f kvs)"

text \<open>\<open>disease_frequencies[disease]\<close>: how often the name occurs in \<open>diseases\<close>.\<close>

definition disease_frequencies :: "string list \<Rightarrow> string \<Rightarrow> nat" where
  "disease_frequencies ds disease = count_list ds disease"

definition matched_count :: "nat list \<Rightarrow> int list \<Rightarrow> nat" where
  "matched_count symptom_indices row_symptoms =
     length (filter (\<lambda>idx. idx < length row_symptoms \<and> row_symptoms ! idx = 1) symptom_indices)"

text \<open>The score one matching row adds to \<open>total_score\<close> (lines 157 to 176).\<close>

definition row_score :: "nat \<Rightarrow> nat \<Rightarrow> int \<Rightarrow> nat \<Rightarrow> real" where
  "row_score matched_symptoms n_indices total_symptoms_in_row freq =
     (let match_percentage = real matched_symptoms / real n_indices;
          base_score = match_percentage * 100;
          base_score = (if matched_symptoms = n_indices then base_score * 2 else base_score);
          base_score = (if total_symptoms_in_row = 1 \<and> matched_symptoms = 1
                        then base_score * (3 / 2) else base_score);
          frequency_weight = 1 + real freq / 10000
      in base_score * frequency_weight)"

text \<open>The body of the loop over the rows (lines 144 to 177).\<close>

definition score_row ::
  "nat list \<Rightarrow> (string \<Rightarrow> nat) \<Rightarrow> string \<times> int list \<Rightarrow> (string \<times> stats) list \<Rightarrow> (string \<times> stats) list" where
  "score_row symptom_indices freqs dr disease_scores =
     (let disease = fst dr; row_symptoms = snd dr;
          matched_symptoms = matched_count symptom_indices row_symptoms;
          total_symptoms_in_row = sum_list row_symptoms
      in if matched_symptoms = 0 then disease_scores
         else upd_stats disease
                (\<lambda>st. st\<lparr>case_count := case_count st + 1,
                         exact_matches := (if matched_symptoms = length symptom_indices
                                           then exact_matches st + 1 else exact_matches st),
                         single_symptom_matches :=
                           (if total_symptoms_in_row = 1 \<and> matched_symptoms = 1
                            then single_symptom_matches st + 1 else single_symptom_matches st),
                         total_score := total_score st +
                           row_score matched_symptoms (length symptom_indices)
                             total_symptoms_in_row (freqs disease),
                         match_count := match_count st + matched_symptoms\<rparr>)
                disease_scores)"

text \<open>One element of the list \<open>diagnose\<close> returns.\<close>

record disease_match =
  disease :: string
  score :: real
  r_match_count :: nat
  total_symptom_count :: nat
  frequency :: nat
  match_percentage :: real
  r_case_count :: nat
  r_exact_matches :: nat

text \<open>The body of the loop over \<open>disease_scores.items()\<close> (lines 181 to 201).\<close>

definition make_result :: "nat \<Rightarrow> (string \<Rightarrow> nat) \<Rightarrow> string \<times> stats \<Rightarrow> disease_match" where
  "make_result n_indices freqs ds =
     (let disease = fst ds; st = snd ds;
          avg_score = (if case_count st > 0 then total_score st / real (case_count st) else 0);
          confidence_weight = min (real (case_count st) / 10) 2;
          final_score = avg_score * confidence_weight;
          match_percentage =
            (if case_count st > 0
             then real (match_count st) / real (case_count st * n_indices) * 100 else 0)
      in \<lparr>disease = disease, score = py_round final_score 2, r_match_count = match_count st,
          total_symptom_count = n_indices, frequency = freqs disease,
          match_percentage = py_round match_percentage 2, r_case_count = case_count st,
          r_exact_matches = exact_matches st\<rparr>)"

text \<open>
  The accumulator after the loop over the rows. \<open>load_dataset\<close> appends to \<open>diseases\<close> and
  \<open>data_rows\<close> together, so row \<open>i\<close> is paired with \<open>diseases[i]\<close>.
\<close>

definition score_rows :: "nat list \<Rightarrow> dataset \<Rightarrow> (string \<times> stats) list" where
  "score_rows symptom_indices ds =
     fold (score_row symptom_indices (disease_frequencies (diseases ds)))
          (zip (diseases ds) (data_rows ds)) []"

text \<open>The list \<open>results\<close> before it is sorted: one record for each key of \<open>disease_scores\<close>.\<close>

definition build_results :: "nat list \<Rightarrow> dataset \<Rightarrow> disease_match list" where
  "build_results symptom_indices ds =
     map (make_result (length symptom_indices) (disease_frequencies (diseases ds)))
         (score_rows symptom_indices ds)"

text \<open>
  \<open>diagnose(symptoms, top_n)\<close> on a loaded dataset. \<open>diseases[i]\<close> raises \<open>IndexError\<close> when
  there are more rows than disease names; the check for an empty index list comes first.
\<close>

definition diagnose_A :: "string list \<Rightarrow> int \<Rightarrow> dataset \<Rightarrow> py_error + disease_match list" where
  "diagnose_A symptoms top_n ds =
     (let symptom_indices = find_symptom_indices symptoms (symptom_columns ds) in
      if symptom_indices = [] then Inr []
      else if length (diseases ds) < length (data_rows ds) then Inl IndexError
      else Inr (py_slice_to (sort_desc score (build_results symptom_indices ds)) top_n))"

section \<open>Engine B: \<open>src/backend/json-based/diagnose.py\<close>\<close>

text \<open>
  A value read from JSON: \<open>None\<close>, a \<open>bool\<close>, an \<open>int\<close>, a \<open>float\<close>, a \<open>str\<close>, a \<open>list\<close>
  or a \<open>dict\<close> (its items, in order).
\<close>

datatype json =
    JNull
  | JBool bool
  | JInt int
  | JFloat real
  | JStr string
  | JList "json list"
  | JDict "(string \<times> json) list"

text \<open>
  \<open>isinstance(v, (int, float))\<close> holds of a \<open>bool\<close> too (\<open>bool\<close> is a subclass of \<open>int\<close>);
  \<open>as_number\<close> is the number such a value stands for.
\<close>

fun as_number :: "json \<Rightarrow> real option" where
  "as_number (JBool b) = Some (if b then 1 else 0)"
| "as_number (JInt i) = Some (of_int i)"
| "as_number (JFloat r) = Some r"
| "as_number v = None"

definition is_number :: "json \<Rightarrow> bool" where
  "is_number v = (as_number v \<noteq> None)"

text \<open>
  Converting an \<open>int\<close> to a \<open>float\<close> raises \<open>OverflowError\<close> when the nearest double would
  lie beyond the largest one, that is from \<open>2^1024 - 2^970\<close> on in absolute value.
\<close>

definition int_overflows :: "int \<Rightarrow> bool" where
  "int_overflows i = (2 ^ 1024 - 2 ^ 970 \<le> \<bar>i\<bar>)"

text \<open>
  \<open>float(actual)\<close>, with the exception Python raises where there is no value: \<open>ValueError\<close> for
  a string that is no number, \<open>TypeError\<close> for \<open>None\<close>, a list or a dictionary, \<open>OverflowError\<close>
  for an \<open>int\<close> that is too large. What \<open>float\<close> makes of a string is Python's own parser, taken
  as the parameter \<open>float_of_str\<close>.
\<close>

fun py_float :: "(string \<Rightarrow> real option) \<Rightarrow> json \<Rightarrow> py_error + real" where
  "py_float float_of_str (JStr s) =
     (case float_of_str s of None \<Rightarrow> Inl ValueError | Some r \<Rightarrow> Inr r)"
| "py_float float_of_str (JInt i) = (if int_overflows i then Inl OverflowError else Inr (of_int i))"
| "py_float float_of_str (JBool b) = Inr (if b then 1 else 0)"
| "py_float float_of_str (JFloat r) = Inr r"
| "py_float float_of_str v = Inl TypeError"

text \<open>
  A bound of a range as an operand of float arithmetic (\<open>min_val - actual_num\<close>,
  \<open>distance / min_val\<close>): an \<open>int\<close> is converted to a \<open>float\<close> first, which may raise
  \<open>OverflowError\<close>. Comparisons of an \<open>int\<close> with a \<open>float\<close> are exact and raise nothing.
\<close>

fun float_operand :: "json \<Rightarrow> py_error + real" where
  "float_operand (JInt i) = (if int_overflows i then Inl OverflowError else Inr (of_int i))"
| "float_operand (JBool b) = Inr (if b then 1 else 0)"
| "float_operand (JFloat r) = Inr r"
| "float_operand v = Inl TypeError"

text \<open>
  Python's \<open>==\<close> on these values: numbers (and booleans) compare by value, strings and \<open>None\<close>
  with their own kind, lists element by element, dictionaries key by key.
\<close>

fun py_eq :: "json \<Rightarrow> json \<Rightarrow> bool"
  and py_eq_list :: "json list \<Rightarrow> json list \<Rightarrow> bool"
  and py_eq_items :: "(string \<times> json) list \<Rightarrow> (string \<times> json) list \<Rightarrow> bool"
  and py_eq_lookup :: "string \<Rightarrow> json \<Rightarrow> (string \<times> json) list \<Rightarrow> bool" where
  "py_eq JNull JNull = True"
| "py_eq (JStr s) (JStr t) = (s = t)"
| "py_eq (JList xs) (JList ys) = py_eq_list xs ys"
| "py_eq (JDict xs) (JDict ys) = (length xs = length ys \<and> py_eq_items xs ys)"
| "py_eq a b = (case (as_number a, as_number b) of (Some x, Some y) \<Rightarrow> x = y | _ \<Rightarrow> False)"
| "py_eq_list [] [] = True"
| "py_eq_list (x # xs) (y # ys) = (py_eq x y \<and> py_eq_list xs ys)"
| "py_eq_list xs ys = False"
| "py_eq_items [] ys = True"
| "py_eq_items ((k, v) # xs) ys = (py_eq_lookup k v ys \<and> py_eq_items xs ys)"
| "py_eq_lookup k v [] = False"
| "py_eq_lookup k v ((k', w) # ys) = (if k = k' then py_eq v w else py_eq_lookup k v ys)"

text \<open>\<open>actual in expected\<close> for a list.\<close>

definition py_in :: "json \<Rightarrow> json list \<Rightarrow> bool" where
  "py_in actual expected = list_ex (\<lambda>e. py_eq e actual) expected"

text \<open>
  The body of the \<open>try\<close> in the range branch of \<open>match_expectation\<close> (lines 62 to 72), with
  the exception it raises, if any.
\<close>

definition range_score :: "(string \<Rightarrow> real option) \<Rightarrow> json \<Rightarrow> json \<Rightarrow> json \<Rightarrow> py_error + real" where
  "range_score float_of_str lo hi actual =
     (case py_float float_of_str actual of
        Inl e \<Rightarrow> Inl e
      | Inr actual_num \<Rightarrow>
          let min_val = the (as_number lo); max_val = the (as_number hi) in
          if min_val \<le> actual_num \<and> actual_num \<le> max_val then Inr 1
          else if actual_num < min_val then
            (case float_operand lo of
               Inl e \<Rightarrow> Inl e
             | Inr min_f \<Rightarrow>
                 let distance = min_f - actual_num in
                 if min_f = 0 then Inl ZeroDivisionError
                 else Inr (max 0 (1 - (distance / min_f) * (1 / 2))))
          else
            (case float_operand hi of
               Inl e \<Rightarrow> Inl e
             | Inr max_f \<Rightarrow>
                 let distance = actual_num - max_f in
                 if max_f = 0 then Inl ZeroDivisionError
                 else Inr (max 0 (1 - (distance / max_f) * (1 / 2)))))"

text \<open>
  \<open>match_expectation(expected, actual)\<close>. The \<open>except\<close> of the range branch catches
  \<open>ValueError\<close> and \<open>TypeError\<close> only: dividing by a bound that is zero raises
  \<open>ZeroDivisionError\<close> out of the function, and so does the \<open>OverflowError\<close> of an \<open>int\<close> too
  large for a \<open>float\<close>.
\<close>

definition match_expectation :: "(string \<Rightarrow> real option) \<Rightarrow> json \<Rightarrow> json \<Rightarrow> py_error + real" where
  "match_expectation float_of_str expected actual =
     (if actual = JNull then Inr 0
      else case expected of
        JList es \<Rightarrow>
          if length es = 2 \<and> is_number (es ! 0) \<and> is_number (es ! 1) then
            (case range_score float_of_str (es ! 0) (es ! 1) actual of
               Inl e \<Rightarrow> (if e = ValueError \<or> e = TypeError then Inr 0 else Inl e)
             | Inr v \<Rightarrow> Inr v)
          else if py_in actual es then Inr 1 else Inr 0
      | JBool expected_bool \<Rightarrow>
          (case actual of
             JBool actual_bool \<Rightarrow> Inr (if actual_bool = expected_bool then 1 else 0)
           | JStr actual_str \<Rightarrow>
               (let actual_bool = (py_lower actual_str \<in> {''true'', ''yes'', ''1''}) in
                Inr (if actual_bool = expected_bool then 1 else 0))
           | _ \<Rightarrow> Inr 0)
      | _ \<Rightarrow>
          if py_eq expected actual then Inr 1
          else (case (expected, actual) of
                  (JStr e, JStr a) \<Rightarrow> Inr (if py_lower e = py_lower a then 1 else 0)
                | _ \<Rightarrow> Inr 0))"

text \<open>
  One entry of a disease's \<open>symptoms\<close> dictionary; every key may be missing. The key
  \<open>note\<close> is the field \<open>note_text\<close>.
\<close>

record symptom_config =
  importance :: "real option"
  note_text :: "string option"
  expectations :: "(string \<times> json) list option"

text \<open>One disease profile; every key may be missing.\<close>

record disease_data =
  symptoms :: "(string \<times> symptom_config) list option"
  prevalence :: "real option"
  common_name :: "string option"
  category :: "string option"

text \<open>
  The loop of \<open>calculate_symptom_match_score\<close> over \<open>expectations.items()\<close>, carrying
  \<open>(total_weight, weighted_score)\<close>. \<open>patient_symptom_data.get(key)\<close> is \<open>None\<close> for a key
  that is missing.
\<close>

fun score_expectations ::
  "(string \<Rightarrow> real option) \<Rightarrow> (string \<times> json) list \<Rightarrow> (string \<rightharpoonup> json) \<Rightarrow> real \<times> real
   \<Rightarrow> py_error + real \<times> real" where
  "score_expectations float_of_str [] pd acc = Inr acc"
| "score_expectations float_of_str ((key, expected_value) # rest) pd (total_weight, weighted_score) =
     (let actual_value = (case pd key of None \<Rightarrow> JNull | Some v \<Rightarrow> v) in
      case match_expectation float_of_str expected_value actual_value of
        Inl e \<Rightarrow> Inl e
      | Inr match_score \<Rightarrow>
          score_expectations float_of_str rest pd (total_weight + 1, weighted_score + match_score * 1))"

definition calculate_symptom_match_score ::
  "(string \<Rightarrow> real option) \<Rightarrow> symptom_config \<Rightarrow> (string \<rightharpoonup> json) \<Rightarrow> py_error + real" where
  "calculate_symptom_match_score float_of_str disease_symptom patient_symptom_data =
     (let exps = (case expectations disease_symptom of None \<Rightarrow> [] | Some e \<Rightarrow> e) in
      if exps = [] then Inr 1
      else case score_expectations float_of_str exps patient_symptom_data (0, 0) of
        Inl e \<Rightarrow> Inl e
      | Inr (total_weight, weighted_score) \<Rightarrow>
          if total_weight = 0 then Inr 1 else Inr (weighted_score / total_weight))"

text \<open>The entries of the lists a diagnosis carries.\<close>

record symptom_match =
  sm_symptom :: string
  sm_match_quality :: int
  sm_importance :: int

record missing_symptom =
  ms_symptom :: string
  ms_importance :: int

record negative_match =
  nm_symptom :: string
  nm_note :: string

text \<open>The local variables of \<open>diagnose\<close> that the loop over one disease's symptoms updates.\<close>

record tally =
  t_total_score :: real
  t_max_possible_score :: real
  t_matched_symptoms :: "symptom_match list"
  t_missing_symptoms :: "missing_symptom list"
  t_partially_matched :: "symptom_match list"
  t_negative_matches :: "negative_match list"

definition empty_tally :: tally where
  "empty_tally =
     \<lparr>t_total_score = 0, t_max_possible_score = 0, t_matched_symptoms = [],
      t_missing_symptoms = [], t_partially_matched = [], t_negative_matches = []\<rparr>"

text \<open>The body of the loop over \<open>disease_symptoms.items()\<close> (lines 191 to 240).\<close>

definition score_symptom ::
  "(string \<Rightarrow> real option) \<Rightarrow> (string \<rightharpoonup> (string \<rightharpoonup> json)) \<Rightarrow> string \<times> symptom_config \<Rightarrow> tally
   \<Rightarrow> py_error + tally" where
  "score_symptom float_of_str patient_symptoms sc t =
     (let symptom_name = fst sc; symptom_config = snd sc;
          imp = (case importance symptom_config of None \<Rightarrow> 1 / 2 | Some i \<Rightarrow> i) in
      if imp < 0 then
        (let abs_importance = \<bar>imp\<bar>;
             t = t\<lparr>t_max_possible_score := t_max_possible_score t + abs_importance\<rparr> in
         if patient_symptoms symptom_name = None then
           Inr (t\<lparr>t_total_score := t_total_score t + abs_importance,
                  t_negative_matches := t_negative_matches t @
                    [\<lparr>nm_symptom = symptom_name,
                      nm_note = (case note_text symptom_config of
                                   None \<Rightarrow> ''Absence of '' @ symptom_name @ '' supports this diagnosis''
                                 | Some n \<Rightarrow> n)\<rparr>]\<rparr>)
         else Inr t)
      else
        (let t = t\<lparr>t_max_possible_score := t_max_possible_score t + imp\<rparr> in
         case patient_symptoms symptom_name of
           Some patient_data \<Rightarrow>
             (case calculate_symptom_match_score float_of_str symptom_config patient_data of
                Inl e \<Rightarrow> Inl e
              | Inr match_quality \<Rightarrow>
                  (let symptom_score = imp * match_quality;
                       t = t\<lparr>t_total_score := t_total_score t + symptom_score\<rparr>;
                       entry = \<lparr>sm_symptom = symptom_name,
                                sm_match_quality = round_half_even (match_quality * 100),
                                sm_importance = round_half_even (imp * 100)\<rparr> in
                   if 4 / 5 \<le> match_quality then
                     Inr (t\<lparr>t_matched_symptoms := t_matched_symptoms t @ [entry]\<rparr>)
                   else if 0 < match_quality then
                     Inr (t\<lparr>t_partially_matched := t_partially_matched t @ [entry]\<rparr>)
                   else Inr t))
         | None \<Rightarrow>
             if 7 / 10 \<le> imp then
               Inr (t\<lparr>t_missing_symptoms := t_missing_symptoms t @
                        [\<lparr>ms_symptom = symptom_name, ms_importance = round_half_even (imp * 100)\<rparr>]\<rparr>)
             else Inr t))"

text \<open>A loop whose body may raise: the first error ends it.\<close>

fun fold_err :: "('a \<Rightarrow> 's \<Rightarrow> py_error + 's) \<Rightarrow> 'a list \<Rightarrow> 's \<Rightarrow> py_error + 's" where
  "fold_err f [] s = Inr s"
| "fold_err f (x # xs) s = (case f x s of Inl e \<Rightarrow> Inl e | Inr s' \<Rightarrow> fold_err f xs s')"

text \<open>\<open>sep.join(parts)\<close>.\<close>

fun join :: "string \<Rightarrow> string list \<Rightarrow> string" where
  "join sep [] = []"
| "join sep [x] = x"
| "join sep (x # y # ys) = x @ sep @ join sep (y # ys)"

text \<open>One element of the list \<open>diagnose\<close> returns.\<close>

record diagnosis =
  d_disease :: string
  d_common_name :: string
  d_category :: string
  confidence :: real
  d_matched_symptoms :: "symptom_match list"
  d_partially_matched :: "symptom_match list"
  d_missing_symptoms :: "missing_symptom list"
  d_negative_matches :: "negative_match list"
  explanation :: string

definition build_explanation :: "tally \<Rightarrow> string" where
  "build_explanation t =
     join '' | ''
       ((if t_matched_symptoms t \<noteq> []
         then [''Strong match on: '' @ join '', '' (map sm_symptom (t_matched_symptoms t))] else []) @
        (if t_partially_matched t \<noteq> []
         then [''Partial match on: '' @ join '', '' (map sm_symptom (t_partially_matched t))] else []) @
        map nm_note (t_negative_matches t) @
        (if t_missing_symptoms t \<noteq> []
         then [''Consider checking for: '' @ join '', '' (map ms_symptom (t_missing_symptoms t))] else []))"

text \<open>The confidence before it is rounded (lines 242 to 253).\<close>

definition raw_confidence :: "real \<Rightarrow> tally \<Rightarrow> real" where
  "raw_confidence prev t =
     (let base_confidence =
            (if 0 < t_max_possible_score t
             then (t_total_score t / t_max_possible_score t) * 100 else 0);
          prevalence_factor = 1 + prev * (1 / 5)
      in min 100 (base_confidence * prevalence_factor))"

text \<open>
  The body of the loop over \<open>disease_profiles.items()\<close>: \<open>None\<close> is \<open>continue\<close>, otherwise the
  dictionary appended to \<open>results\<close>.
\<close>

definition score_disease ::
  "(string \<Rightarrow> real option) \<Rightarrow> (string \<rightharpoonup> (string \<rightharpoonup> json)) \<Rightarrow> string \<times> disease_data
   \<Rightarrow> py_error + diagnosis option" where
  "score_disease float_of_str patient_symptoms dd =
     (let disease_name = fst dd; disease_data = snd dd;
          disease_symptoms = (case symptoms disease_data of None \<Rightarrow> [] | Some s \<Rightarrow> s);
          prev = (case prevalence disease_data of None \<Rightarrow> 1 / 20 | Some p \<Rightarrow> p) in
      if disease_symptoms = [] then Inr None
      else case fold_err (score_symptom float_of_str patient_symptoms) disease_symptoms empty_tally of
        Inl e \<Rightarrow> Inl e
      | Inr t \<Rightarrow>
          if t_matched_symptoms t = [] \<and> t_partially_matched t = [] \<and> t_negative_matches t = []
          then Inr None
          else Inr (Some
            \<lparr>d_disease = disease_name,
             d_common_name = (case common_name disease_data of None \<Rightarrow> disease_name | Some n \<Rightarrow> n),
             d_category = (case category disease_data of None \<Rightarrow> ''General'' | Some c \<Rightarrow> c),
             confidence = py_round (raw_confidence prev t) 1,
             d_matched_symptoms = t_matched_symptoms t,
             d_partially_matched = t_partially_matched t,
             d_missing_symptoms = t_missing_symptoms t,
             d_negative_matches = t_negative_matches t,
             explanation = build_explanation t\<rparr>))"

text \<open>The list \<open>results\<close> before it is sorted.\<close>

fun collect_results ::
  "(string \<Rightarrow> real option) \<Rightarrow> (string \<rightharpoonup> (string \<rightharpoonup> json)) \<Rightarrow> (string \<times> disease_data) list
   \<Rightarrow> py_error + diagnosis list" where
  "collect_results float_of_str patient_symptoms [] = Inr []"
| "collect_results float_of_str patient_symptoms (dd # rest) =
     (case score_disease float_of_str patient_symptoms dd of
        Inl e \<Rightarrow> Inl e
      | Inr r \<Rightarrow>
          (case collect_results float_of_str patient_symptoms rest of
             Inl e \<Rightarrow> Inl e
           | Inr rs \<Rightarrow> Inr ((case r of None \<Rightarrow> [] | Some d \<Rightarrow> [d]) @ rs)))"

text \<open>\<open>diagnose(patient_symptoms)\<close> on the loaded disease profiles (their items, in order).\<close>

definition diagnose_B ::
  "(string \<Rightarrow> real option) \<Rightarrow> (string \<times> disease_data) list \<Rightarrow> (string \<rightharpoonup> (string \<rightharpoonup> json))
   \<Rightarrow> py_error + diagnosis list" where
  "diagnose_B float_of_str disease_profiles patient_symptoms =
     (case collect_results float_of_str patient_symptoms disease_profiles of
        Inl e \<Rightarrow> Inl e
      | Inr results \<Rightarrow> Inr (sort_desc confidence results))"

definition get_differential_diagnosis ::
  "(string \<Rightarrow> real option) \<Rightarrow> (string \<times> disease_data) list \<Rightarrow> (string \<rightharpoonup> (string \<rightharpoonup> json))
   \<Rightarrow> int \<Rightarrow> real \<Rightarrow> py_error + diagnosis list" where
  "get_differential_diagnosis float_of_str disease_profiles patient_symptoms top_n min_confidence =
     (case diagnose_B float_of_str disease_profiles patient_symptoms of
        Inl e \<Rightarrow> Inl e
      | Inr all_diagnoses \<Rightarrow>
          (let filtered = filter (\<lambda>d. min_confidence \<le> confidence d) all_diagnoses in
           Inr (py_slice_to filtered top_n)))"

subsection \<open>The single-symptom bonus as the specification words it\<close>

text \<open>
  The specification gives the bonus of 1.5 to a row that "has exactly one symptom present in total"
  where "that one symptom is among the matched ones". These two definitions follow that wording;
  \<open>row_score\<close> above follows the code, which tests \<open>sum(row) == 1 and matched == 1\<close>.
\<close>

definition one_present_and_matched :: "nat list \<Rightarrow> int list \<Rightarrow> bool" where
  "one_present_and_matched symptom_indices row_symptoms =
     (length (filter (\<lambda>v. v = 1) row_symptoms) = 1 \<and>
      (\<exists>i\<in>set symptom_indices. i < length row_symptoms \<and> row_symptoms ! i = 1))"

definition claimed_row_score :: "nat list \<Rightarrow> int list \<Rightarrow> nat \<Rightarrow> real" where
  "claimed_row_score symptom_indices row_symptoms freq =
     (let matched = matched_count symptom_indices row_symptoms;
          base = real matched / real (length symptom_indices) * 100;
          base = (if matched = length symptom_indices then base * 2 else base);
          base = (if one_present_and_matched symptom_indices row_symptoms then base * (3 / 2) else base)
      in base * (1 + real freq / 10000))"

subsection \<open>Profiles with their defaults written out\<close>

text \<open>
  \<open>with_defaults\<close> writes into a profile the values \<open>diagnose\<close> of Engine B takes for keys
  that are missing: \<open>importance\<close> 0.5 in every symptom entry, \<open>prevalence\<close> 0.05 and
  \<open>category\<close> \<open>General\<close>.
\<close>

definition with_default_importance :: "symptom_config \<Rightarrow> symptom_config" where
  "with_default_importance c =
     c\<lparr>importance := Some (case importance c of None \<Rightarrow> 1 / 2 | Some i \<Rightarrow> i)\<rparr>"

definition with_defaults :: "disease_data \<Rightarrow> disease_data" where
  "with_defaults d =
     d\<lparr>symptoms := map_option (map (\<lambda>sc. (fst sc, with_default_importance (snd sc)))) (symptoms d),
       prevalence := Some (case prevalence d of None \<Rightarrow> 1 / 20 | Some p \<Rightarrow> p),
       category := Some (case category d of None \<Rightarrow> ''General'' | Some c \<Rightarrow> c)\<rparr>"

subsection \<open>Orders of first appearance\<close>

text \<open>The elements of a list in the order in which each first appears in it.\<close>

definition first_appearance :: "'a list \<Rightarrow> 'a list" where
  "first_appearance xs = rev (remdups (rev xs))"

section \<open>Example data\<close>

definition example_dataset :: dataset where
  "example_dataset =
     \<lparr>diseases = [''Flu'', ''Cold'', ''Flu''], symptom_columns = [''fever'', ''cough''],
      data_rows = [[1, 0], [1, 1], [0, 1]]\<rparr>"

definition example_Cold :: disease_match where
  "example_Cold =
     \<lparr>disease = ''Cold'', score = 20, r_match_count = 2, total_symptom_count = 2, frequency = 1,
      match_percentage = 100, r_case_count = 1, r_exact_matches = 1\<rparr>"

definition example_Flu :: disease_match where
  "example_Flu =
     \<lparr>disease = ''Flu'', score = 15, r_match_count = 2, total_symptom_count = 2, frequency = 2,
      match_percentage = 50, r_case_count = 2, r_exact_matches = 0\<rparr>"

definition example_bare_profiles :: "(string \<times> disease_data) list" where
  "example_bare_profiles =
     [(''Flu'',
       \<lparr>symptoms = Some [(''Fever'', \<lparr>importance = None, note_text = None, expectations = None\<rparr>)],
        prevalence = None, common_name = None, category = None\<rparr>)]"

definition example_fever_report :: "string \<rightharpoonup> (string \<rightharpoonup> json)" where
  "example_fever_report = [''Fever'' \<mapsto> [''present'' \<mapsto> JBool True]]"

definition example_profiles :: "(string \<times> disease_data) list" where
  "example_profiles =
     [(''Common Cold'',
       \<lparr>symptoms = Some [(''Cough'', \<lparr>importance = Some (1 / 2), note_text = None, expectations = None\<rparr>),
                         (''Fever'', \<lparr>importance = Some (1 / 2), note_text = None,
                            expectations = Some [(''intensity'', JList [JInt 1, JInt 4])]\<rparr>)],
        prevalence = Some (1 / 5), common_name = None, category = Some ''Respiratory''\<rparr>),
      (''Strep Throat'',
       \<lparr>symptoms = Some [(''Fever'', \<lparr>importance = Some (4 / 5), note_text = None,
                            expectations = Some [(''intensity'', JList [JInt 6, JInt 10])]\<rparr>),
                         (''Cough'', \<lparr>importance = Some (- (3 / 5)), note_text = None, expectations = None\<rparr>)],
        prevalence = None, common_name = Some ''Strep'', category = None\<rparr>)]"

definition example_report :: "string \<rightharpoonup> (string \<rightharpoonup> json)" where
  "example_report = [''Fever'' \<mapsto> [''present'' \<mapsto> JBool True, ''intensity'' \<mapsto> JInt 8]]"

definition zero_bound_profiles :: "(string \<times> disease_data) list" where
  "zero_bound_profiles =
     [(''Flu'',
       \<lparr>symptoms = Some [(''Fever'', \<lparr>importance = Some (4 / 5), note_text = None,
                            expectations = Some [(''intensity'', JList [JInt 0, JInt 10])]\<rparr>)],
        prevalence = None, common_name = None, category = None\<rparr>)]"

definition zero_bound_report :: "string \<rightharpoonup> (string \<rightharpoonup> json)" where
  "zero_bound_report = [''Fever'' \<mapsto> [''intensity'' \<mapsto> JInt (- 1)]]"

definition example_Strep :: diagnosis where
  "example_Strep =
     \<lparr>d_disease = ''Strep Throat'', d_common_name = ''Strep'', d_category = ''General'',
      confidence = 100,
      d_matched_symptoms = [\<lparr>sm_symptom = ''Fever'', sm_match_quality = 100, sm_importance = 80\<rparr>],
      d_partially_matched = [], d_missing_symptoms = [],
      d_negative_matches =
        [\<lparr>nm_symptom = ''Cough'', nm_note = ''Absence of Cough supports this diagnosis''\<rparr>],
      explanation = ''Strong match on: Fever | Absence of Cough supports this diagnosis''\<rparr>"

definition example_Common_Cold :: diagnosis where
  "example_Common_Cold =
     \<lparr>d_disease = ''Common Cold'', d_common_name = ''Common Cold'', d_category = ''Respiratory'',
      confidence = 26, d_matched_symptoms = [],
      d_partially_matched = [\<lparr>sm_symptom = ''Fever'', sm_match_quality = 50, sm_importance = 50\<rparr>],
      d_missing_symptoms = [], d_negative_matches = [],
      explanation = ''Partial match on: Fever''\<rparr>"

definition tie_dataset :: dataset where
  "tie_dataset =
     \<lparr>diseases = [''Zeta'', ''Alpha'', ''Zeta'', ''Mid''], symptom_columns = [''fever'', ''cough''],
      data_rows = [[0, 1], [1, 1], [1, 1], [1, 1]]\<rparr>"

definition tie_Alpha :: disease_match where
  "tie_Alpha =
     \<lparr>disease = ''Alpha'', score = 20, r_match_count = 1, total_symptom_count = 1, frequency = 1,
      match_percentage = 100, r_case_count = 1, r_exact_matches = 1\<rparr>"

definition tie_Zeta :: disease_match where
  "tie_Zeta =
     \<lparr>disease = ''Zeta'', score = 20, r_match_count = 1, total_symptom_count = 1, frequency = 2,
      match_percentage = 100, r_case_count = 1, r_exact_matches = 1\<rparr>"

definition tie_Mid :: disease_match where
  "tie_Mid =
     \<lparr>disease = ''Mid'', score = 20, r_match_count = 1, total_symptom_count = 1, frequency = 1,
      match_percentage = 100, r_case_count = 1, r_exact_matches = 1\<rparr>"

section \<open>Engine A: properties\<close>

lemma example_run_A:
  "diagnose_A [''Fever '', ''cough''] 5 example_dataset = Inr [example_Cold, example_Flu]"
  by code_simp

subsection \<open>The accumulator\<close>

lemma upd_stats_fst:
  "map fst (upd_stats d f acc) =
     (if d \<in> fst ` set acc then map fst acc else map fst acc @ [d])"
  by (induction acc) (force simp: image_iff)+

lemma upd_stats_pred:
  "P (f default_stats) \<Longrightarrow> (\<And>st. P st \<Longrightarrow> P (f st)) \<Longrightarrow> \<forall>kv\<in>set acc. P (snd kv)
   \<Longrightarrow> \<forall>kv\<in>set (upd_stats d f acc). P (snd kv)"
  by (induction acc) (force split: if_splits)+

lemma map_of_upd_stats:
  "map_of (upd_stats d f acc) =
     (map_of acc)(d \<mapsto> f (case map_of acc d of None \<Rightarrow> default_stats | Some st \<Rightarrow> st))"
  by (induction acc) auto

lemma set_py_slice_to: "set (py_slice_to xs n) \<subseteq> set xs"
  by (auto simp: py_slice_to_def dest: in_set_takeD)

lemma set_sort_desc: "set (sort_desc key xs) = set xs"
  by (simp add: sort_desc_def)

subsection \<open>Counted rows match at least once\<close>

lemma score_row_counts:
  assumes "\<forall>kv\<in>set acc. 1 \<le> case_count (snd kv) \<and> case_count (snd kv) \<le> match_count (snd kv)"
  shows "\<forall>kv\<in>set (score_row idx freqs dr acc).
           1 \<le> case_count (snd kv) \<and> case_count (snd kv) \<le> match_count (snd kv)"
proof (cases "matched_count idx (snd dr) = 0")
  case True
  then show ?thesis using assms by (simp add: score_row_def)
next
  case False
  then show ?thesis
    unfolding score_row_def Let_def
    using assms
    by (simp only: if_False) (rule upd_stats_pred, auto simp: default_stats_def)
qed

lemma fold_score_row_counts:
  "\<forall>kv\<in>set acc. 1 \<le> case_count (snd kv) \<and> case_count (snd kv) \<le> match_count (snd kv) \<Longrightarrow>
   \<forall>kv\<in>set (fold (score_row idx freqs) rows acc).
     1 \<le> case_count (snd kv) \<and> case_count (snd kv) \<le> match_count (snd kv)"
proof (induction rows arbitrary: acc)
  case Nil
  then show ?case by simp
next
  case (Cons r rows)
  show ?case
    unfolding fold_simps
    by (rule Cons.IH, rule score_row_counts, rule Cons.prems)
qed

lemma build_results_counts:
  assumes "r \<in> set (build_results idx ds)"
  shows "1 \<le> r_case_count r \<and> r_case_count r \<le> r_match_count r"
proof -
  from assms obtain kv where kv: "kv \<in> set (score_rows idx ds)"
    and r: "r = make_result (length idx) (disease_frequencies (diseases ds)) kv"
    by (auto simp: build_results_def)
  have "\<forall>kv\<in>set (score_rows idx ds).
          1 \<le> case_count (snd kv) \<and> case_count (snd kv) \<le> match_count (snd kv)"
    unfolding score_rows_def by (rule fold_score_row_counts) simp
  with kv have "1 \<le> case_count (snd kv) \<and> case_count (snd kv) \<le> match_count (snd kv)"
    by blast
  then show ?thesis by (simp add: r make_result_def Let_def)
qed

text \<open>
  Claim C9. Every record that \<open>diagnose\<close> of Engine A returns has
  \<open>match_count \<ge> case_count \<ge> 1\<close>: a row is counted only when it matches at least one resolved
  symptom, and each counted row adds its number of matches to \<open>match_count\<close>. This holds for
  every \<open>top_n\<close>, also a negative one.
\<close>

theorem C9_match_count_ge_case_count:
  assumes "diagnose_A syms top_n ds = Inr rs" and "r \<in> set rs"
  shows "r_case_count r \<le> r_match_count r \<and> 1 \<le> r_case_count r"
proof -
  let ?idx = "find_symptom_indices syms (symptom_columns ds)"
  show ?thesis
  proof (cases "?idx = []")
    case True
    with assms show ?thesis by (simp add: diagnose_A_def)
  next
    case False
    with assms(1) have "rs = py_slice_to (sort_desc score (build_results ?idx ds)) top_n"
      by (simp add: diagnose_A_def Let_def split: if_splits)
    with assms(2) have "r \<in> set (build_results ?idx ds)"
      using set_py_slice_to set_sort_desc by fastforce
    then show ?thesis using build_results_counts by blast
  qed
qed

theorem C9_match_count_ge_case_count_witness:
  "diagnose_A [''Fever '', ''cough''] 5 example_dataset = Inr [example_Cold, example_Flu]
   \<and> r_case_count example_Flu \<le> r_match_count example_Flu \<and> 1 \<le> r_case_count example_Flu"
proof -
  have mem: "example_Flu \<in> set [example_Cold, example_Flu]" by simp
  from C9_match_count_ge_case_count [OF example_run_A mem] example_run_A
  show ?thesis by simp
qed

subsection \<open>Symptom resolution, ordering and the contribution of a row\<close>

lemma fold_indices_acc:
  "fold (\<lambda>symptom indices. case g symptom of Some idx \<Rightarrow> indices @ [idx] | None \<Rightarrow> indices) xs acc
   = acc @ List.map_filter g xs"
  by (induction xs arbitrary: acc) (auto simp: List.map_filter_simps split: option.splits)

lemma find_symptom_indices_map_filter:
  "find_symptom_indices syms cols =
     List.map_filter (\<lambda>s. list_index (map normalize_symptom_name cols) (normalize_symptom_name s)) syms"
  unfolding find_symptom_indices_def Let_def
  by (simp add: fold_indices_acc)

lemma list_index_None: "list_index xs y = None \<longleftrightarrow> y \<notin> set xs"
  by (induction xs) auto

lemma list_index_Some: "list_index xs y = Some i \<Longrightarrow> i < length xs \<and> xs ! i = y \<and> y \<notin> set (take i xs)"
proof (induction xs arbitrary: i)
  case Nil then show ?case by simp
next
  case (Cons x xs)
  show ?case
  proof (cases "x = y")
    case True with Cons.prems show ?thesis by simp
  next
    case False
    with Cons.prems obtain j where j: "list_index xs y = Some j" "i = Suc j" by auto
    from Cons.IH[OF j(1)] False j(2) show ?thesis by simp
  qed
qed

lemma map_filter_empty_iff: "List.map_filter g xs = [] \<longleftrightarrow> (\<forall>x\<in>set xs. g x = None)"
  by (induction xs) (auto simp: List.map_filter_simps split: option.splits)

text \<open>
  Claim C6. \<open>find_symptom_indices\<close> never fails: it returns, in input order, the column of
  every name that normalizes to a column name and drops every other name. The list is empty
  exactly when no input name resolves, and then \<open>diagnose\<close> returns the empty list at once,
  whatever the rows are (also where scoring them would raise).
\<close>

theorem C6_unresolved_names_dropped:
  "find_symptom_indices syms cols =
     List.map_filter (\<lambda>s. list_index (map normalize_symptom_name cols) (normalize_symptom_name s)) syms
   \<and> (find_symptom_indices syms cols = [] \<longleftrightarrow>
        (\<forall>s\<in>set syms. normalize_symptom_name s \<notin> normalize_symptom_name ` set cols))
   \<and> (find_symptom_indices syms (symptom_columns ds) = [] \<longrightarrow> diagnose_A syms top_n ds = Inr [])"
proof (intro conjI)
  show "find_symptom_indices syms cols =
     List.map_filter (\<lambda>s. list_index (map normalize_symptom_name cols) (normalize_symptom_name s)) syms"
    by (rule find_symptom_indices_map_filter)
  show "find_symptom_indices syms cols = [] \<longleftrightarrow>
        (\<forall>s\<in>set syms. normalize_symptom_name s \<notin> normalize_symptom_name ` set cols)"
    by (simp add: find_symptom_indices_map_filter map_filter_empty_iff list_index_None)
  show "find_symptom_indices syms (symptom_columns ds) = [] \<longrightarrow> diagnose_A syms top_n ds = Inr []"
    by (simp add: diagnose_A_def)
qed

lemma sorted_wrt_sort_desc: "sorted_wrt (\<lambda>a b. key b \<le> key a) (sort_desc key xs)"
proof -
  have "sorted (map (\<lambda>x. - key x) (sort_key (\<lambda>x. - key x) xs))" by (rule sorted_sort_key)
  then show ?thesis by (simp add: sort_desc_def sorted_map)
qed

lemma sort_desc_stable: "filter (\<lambda>y. key y = k) (sort_desc key xs) = filter (\<lambda>y. key y = k) xs"
proof -
  have "filter (\<lambda>y. - key y = - k) (sort_key (\<lambda>x. - key x) xs) = filter (\<lambda>y. - key y = - k) xs"
    by (rule sort_key_stable)
  then show ?thesis by (simp add: sort_desc_def)
qed

lemma sorted_wrt_take: "sorted_wrt P xs \<Longrightarrow> sorted_wrt P (take n xs)"
  by (metis append_take_drop_id sorted_wrt_append)

lemma first_seen_snoc:
  "rev (remdups (rev (xs @ [x]))) = (if x \<in> set xs then rev (remdups (rev xs)) else rev (remdups (rev xs)) @ [x])"
  by simp

lemma score_row_fst:
  "map fst (score_row idx freqs dr acc) =
     (if matched_count idx (snd dr) = 0 \<or> fst dr \<in> fst ` set acc then map fst acc else map fst acc @ [fst dr])"
  by (simp add: score_row_def Let_def upd_stats_fst)

lemma fold_score_row_fst:
  "map fst (fold (score_row idx freqs) rows []) =
     rev (remdups (rev (map fst (filter (\<lambda>dr. matched_count idx (snd dr) \<noteq> 0) rows))))"
proof (induction rows rule: rev_induct)
  case Nil
  then show ?case by simp
next
  case (snoc r rows)
  let ?acc = "fold (score_row idx freqs) rows []"
  let ?ms = "map fst (filter (\<lambda>dr. matched_count idx (snd dr) \<noteq> 0) rows)"
  have set_acc: "fst ` set ?acc = set ?ms"
  proof -
    have "set (map fst ?acc) = set (rev (remdups (rev ?ms)))" by (simp only: snoc.IH)
    then show ?thesis by simp
  qed
  show ?case
  proof (cases "matched_count idx (snd r) = 0")
    case True
    then show ?thesis using snoc.IH by (simp add: score_row_fst)
  next
    case False
    have "map fst (fold (score_row idx freqs) (rows @ [r]) []) = 
          (if fst r \<in> set ?ms then map fst ?acc else map fst ?acc @ [fst r])"
      using False by (simp add: score_row_fst set_acc)
    also have "\<dots> = rev (remdups (rev (?ms @ [fst r])))"
      by (simp only: first_seen_snoc snoc.IH)
    finally show ?thesis using False by simp
  qed
qed

text \<open>
  Claim C8, amended. On a dataset with a disease name for every row, when at least one name
  resolves and \<open>top_n\<close> is positive, \<open>diagnose\<close> returns a list of at most \<open>top_n\<close> records, sorted
  by non-increasing score; it is the first \<open>top_n\<close> of the sorted list of all records; the sort
  keeps records of equal score in the order of the unsorted list; and the unsorted list names
  the diseases in the order in which each first appears among the rows that match at least one
  resolved symptom.
\<close>

theorem C8_sorted_stable_top_n:
  assumes rows: "length (data_rows ds) \<le> length (diseases ds)"
    and resolved: "find_symptom_indices syms (symptom_columns ds) \<noteq> []"
    and pos: "1 \<le> top_n"
  shows "\<exists>rs. diagnose_A syms top_n ds = Inr rs
    \<and> int (length rs) \<le> top_n
    \<and> sorted_wrt (\<lambda>a b. score b \<le> score a) rs
    \<and> rs = take (nat top_n)
             (sort_desc score (build_results (find_symptom_indices syms (symptom_columns ds)) ds))
    \<and> (\<forall>k. filter (\<lambda>r. score r = k)
               (sort_desc score (build_results (find_symptom_indices syms (symptom_columns ds)) ds))
           = filter (\<lambda>r. score r = k)
               (build_results (find_symptom_indices syms (symptom_columns ds)) ds))
    \<and> map disease (build_results (find_symptom_indices syms (symptom_columns ds)) ds)
        = first_appearance (map fst
            (filter (\<lambda>dr. matched_count (find_symptom_indices syms (symptom_columns ds)) (snd dr) \<noteq> 0)
               (zip (diseases ds) (data_rows ds))))"
proof -
  let ?idx = "find_symptom_indices syms (symptom_columns ds)"
  let ?all = "sort_desc score (build_results ?idx ds)"
  define rs where "rs = take (nat top_n) ?all"
  from rows resolved pos have run: "diagnose_A syms top_n ds = Inr rs"
    by (simp add: diagnose_A_def Let_def py_slice_to_def rs_def)
  have len: "int (length rs) \<le> top_n" using pos by (simp add: rs_def)
  have srt: "sorted_wrt (\<lambda>a b. score b \<le> score a) rs"
    unfolding rs_def by (rule sorted_wrt_take) (rule sorted_wrt_sort_desc)
  have stable: "\<forall>k. filter (\<lambda>r. score r = k) ?all = filter (\<lambda>r. score r = k) (build_results ?idx ds)"
    by (simp add: sort_desc_stable)
  have "map disease (build_results ?idx ds) = map fst (score_rows ?idx ds)"
    by (simp add: build_results_def make_result_def Let_def)
  then have order: "map disease (build_results ?idx ds)
        = first_appearance (map fst
            (filter (\<lambda>dr. matched_count ?idx (snd dr) \<noteq> 0) (zip (diseases ds) (data_rows ds))))"
    by (simp only: score_rows_def fold_score_row_fst first_appearance_def)
  from run len srt stable order rs_def show ?thesis by blast
qed

lemma example_resolved:
  "find_symptom_indices [''Fever '', ''cough''] (symptom_columns example_dataset) = [0, 1]"
  by code_simp

lemma tie_resolved: "find_symptom_indices [''fever''] (symptom_columns tie_dataset) = [0]"
  by code_simp

lemma tie_run_all: "diagnose_A [''fever''] 10 tie_dataset = Inr [tie_Alpha, tie_Zeta, tie_Mid]"
  by code_simp

lemma tie_run_top: "diagnose_A [''fever''] 2 tie_dataset = Inr [tie_Alpha, tie_Zeta]"
  by code_simp

text \<open>
  Claim C8 as stated fails: ties are not kept in the order in which the diseases first appear
  in the dataset. \<open>Zeta\<close> appears first, but its first row does not match \<open>fever\<close>, so \<open>Alpha\<close>
  enters \<open>disease_scores\<close> before it; all three scores are 20, and the result lists \<open>Alpha\<close>
  before \<open>Zeta\<close>.
\<close>

theorem C8_first_appearance_counterexample:
  "diagnose_A [''fever''] 10 tie_dataset = Inr [tie_Alpha, tie_Zeta, tie_Mid]
   \<and> score tie_Alpha = score tie_Zeta \<and> score tie_Zeta = score tie_Mid
   \<and> map disease [tie_Alpha, tie_Zeta, tie_Mid] = [''Alpha'', ''Zeta'', ''Mid'']
   \<and> first_appearance (diseases tie_dataset) = [''Zeta'', ''Alpha'', ''Mid'']
   \<and> map disease [tie_Alpha, tie_Zeta, tie_Mid] \<noteq> first_appearance (diseases tie_dataset)"
proof -
  have names: "map disease [tie_Alpha, tie_Zeta, tie_Mid] = [''Alpha'', ''Zeta'', ''Mid'']"
    by (simp add: tie_Alpha_def tie_Zeta_def tie_Mid_def)
  have first: "first_appearance (diseases tie_dataset) = [''Zeta'', ''Alpha'', ''Mid'']"
    by (simp add: first_appearance_def tie_dataset_def)
  have scores: "score tie_Alpha = score tie_Zeta \<and> score tie_Zeta = score tie_Mid"
    by (simp add: tie_Alpha_def tie_Zeta_def tie_Mid_def)
  from names first have "map disease [tie_Alpha, tie_Zeta, tie_Mid] \<noteq> first_appearance (diseases tie_dataset)"
    by simp
  with tie_run_all names first scores show ?thesis by blast
qed

theorem C8_sorted_stable_top_n_witness:
  "length (data_rows tie_dataset) \<le> length (diseases tie_dataset)
   \<and> find_symptom_indices [''fever''] (symptom_columns tie_dataset) \<noteq> []
   \<and> diagnose_A [''fever''] 2 tie_dataset = Inr [tie_Alpha, tie_Zeta]
   \<and> int (length [tie_Alpha, tie_Zeta]) \<le> 2
   \<and> sorted_wrt (\<lambda>a b. score b \<le> score a) [tie_Alpha, tie_Zeta]
   \<and> [tie_Alpha, tie_Zeta]
       = take 2 (sort_desc score (build_results [0] tie_dataset))
   \<and> filter (\<lambda>r. score r = 20) (sort_desc score (build_results [0] tie_dataset))
       = filter (\<lambda>r. score r = 20) (build_results [0] tie_dataset)
   \<and> map disease (build_results [0] tie_dataset) = [''Alpha'', ''Zeta'', ''Mid'']"
proof -
  have rows: "length (data_rows tie_dataset) \<le> length (diseases tie_dataset)"
    by (simp add: tie_dataset_def)
  have ne: "find_symptom_indices [''fever''] (symptom_columns tie_dataset) \<noteq> []"
    by (simp add: tie_resolved)
  have pos: "(1::int) \<le> 2" by simp
  have matching: "first_appearance (map fst
            (filter (\<lambda>dr. matched_count [0] (snd dr) \<noteq> 0)
               (zip (diseases tie_dataset) (data_rows tie_dataset))))
        = [''Alpha'', ''Zeta'', ''Mid'']"
    by (simp add: first_appearance_def tie_dataset_def matched_count_def)
  from C8_sorted_stable_top_n [OF rows ne pos]
  obtain rs where rs: "diagnose_A [''fever''] 2 tie_dataset = Inr rs"
    and len: "int (length rs) \<le> 2"
    and srt: "sorted_wrt (\<lambda>a b. score b \<le> score a) rs"
    and tk: "rs = take (nat 2) (sort_desc score (build_results [0] tie_dataset))"
    and st: "\<forall>k. filter (\<lambda>r. score r = k) (sort_desc score (build_results [0] tie_dataset))
                = filter (\<lambda>r. score r = k) (build_results [0] tie_dataset)"
    and ord: "map disease (build_results [0] tie_dataset)
        = first_appearance (map fst
            (filter (\<lambda>dr. matched_count [0] (snd dr) \<noteq> 0)
               (zip (diseases tie_dataset) (data_rows tie_dataset))))"
    unfolding tie_resolved by blast
  from rs tie_run_top have eq: "rs = [tie_Alpha, tie_Zeta]" by simp
  from st have st20: "filter (\<lambda>r. score r = 20) (sort_desc score (build_results [0] tie_dataset))
                = filter (\<lambda>r. score r = 20) (build_results [0] tie_dataset)"
    by blast
  from ord matching have names: "map disease (build_results [0] tie_dataset) = [''Alpha'', ''Zeta'', ''Mid'']"
    by simp
  from tk eq have tk2: "[tie_Alpha, tie_Zeta] = take 2 (sort_desc score (build_results [0] tie_dataset))"
    by simp
  from rows ne tie_run_top len srt eq tk2 st20 names show ?thesis by simp
qed

lemma example_unresolved:
  "find_symptom_indices [''rash'', ''Itch''] (symptom_columns example_dataset) = []"
  by code_simp

theorem C6_unresolved_names_dropped_witness:
  "find_symptom_indices [''rash'', ''Itch''] (symptom_columns example_dataset) = []
   \<and> diagnose_A [''rash'', ''Itch''] 5 example_dataset = Inr []"
  using C6_unresolved_names_dropped [of "[''rash'', ''Itch'']" "symptom_columns example_dataset" example_dataset 5]
    example_unresolved
  by blast

lemma sum_list_01: "set row \<subseteq> {0, 1} \<Longrightarrow> sum_list row = int (length (filter (\<lambda>v. v = 1) row))"
  by (induction row) auto

lemma matched_le_ones:
  assumes "distinct idx"
  shows "matched_count idx row \<le> length (filter (\<lambda>v. v = 1) row)"
proof -
  let ?P = "\<lambda>i. i < length row \<and> row ! i = 1"
  have "matched_count idx row = card (set (filter ?P idx))"
    unfolding matched_count_def using distinct_card [OF distinct_filter [OF assms, of ?P]] by simp
  also have "\<dots> \<le> card {i. i < length row \<and> row ! i = 1}"
    by (rule card_mono) auto
  also have "\<dots> = length (filter (\<lambda>v. v = 1) row)"
    by (simp add: length_filter_conv_card)
  finally show ?thesis .
qed

lemma matched_pos_iff:
  "matched_count idx row \<noteq> 0 \<longleftrightarrow> (\<exists>i\<in>set idx. i < length row \<and> row ! i = 1)"
  by (auto simp: matched_count_def filter_empty_conv)

lemma single_condition_iff:
  assumes "distinct idx" and "set row \<subseteq> {0, 1}"
  shows "(sum_list row = 1 \<and> matched_count idx row = 1) \<longleftrightarrow> one_present_and_matched idx row"
proof
  assume a: "sum_list row = 1 \<and> matched_count idx row = 1"
  then have "length (filter (\<lambda>v. v = 1) row) = 1" using sum_list_01 [OF assms(2)] by simp
  moreover from a have "matched_count idx row \<noteq> 0" by simp
  then have "\<exists>i\<in>set idx. i < length row \<and> row ! i = 1" by (simp only: matched_pos_iff)
  ultimately show "one_present_and_matched idx row"
    by (simp add: one_present_and_matched_def)
next
  assume b: "one_present_and_matched idx row"
  then have ones: "length (filter (\<lambda>v. v = 1) row) = 1"
    and ex: "\<exists>i\<in>set idx. i < length row \<and> row ! i = 1"
    by (simp_all add: one_present_and_matched_def)
  from ex have pos: "matched_count idx row \<noteq> 0" by (simp only: matched_pos_iff)
  from matched_le_ones [OF assms(1), of row] ones pos have "matched_count idx row = 1" by simp
  moreover from ones sum_list_01 [OF assms(2)] have "sum_list row = 1" by simp
  ultimately show "sum_list row = 1 \<and> matched_count idx row = 1" by simp
qed

lemma stats_update_eq:
  "st\<lparr>case_count := c, exact_matches := e, single_symptom_matches := s, total_score := t,
      match_count := m\<rparr> =
   \<lparr>total_score = t, match_count = m, case_count = c, exact_matches = e,
    single_symptom_matches = s\<rparr>"
  by simp

lemma row_score_product:
  "row_score m n t f =
     real m / real n * 100 * (if m = n then 2 else 1) * (if t = 1 \<and> m = 1 then 3 / 2 else 1)
       * (1 + real f / 10000)"
  by (simp add: row_score_def Let_def)

text \<open>
  Claim C3, amended. A row of disease \<open>d\<close> with no match leaves the accumulator as it is.
  A row with \<open>m > 0\<close> matches changes the entry of \<open>d\<close> only: \<open>case_count\<close> grows by one,
  \<open>match_count\<close> by \<open>m\<close>, and \<open>total_score\<close> by \<open>m / len * 100\<close>, times 2 when \<open>m = len\<close>
  (then \<open>exact_matches\<close> grows by one), times 1.5 when the row's values sum to 1 and \<open>m = 1\<close>
  (then \<open>single_symptom_matches\<close> grows by one), times \<open>1 + frequency / 10000\<close>. When the
  resolved indices are pairwise distinct and the row holds only 0 and 1, the test of the code
  for the 1.5 bonus is the one the specification words.
\<close>

theorem C3_row_contribution:
  "(matched_count idx row = 0 \<longrightarrow> score_row idx freqs (d, row) acc = acc)
   \<and> (matched_count idx row \<noteq> 0 \<longrightarrow>
        map_of (score_row idx freqs (d, row) acc) =
          (map_of acc)(d \<mapsto>
            (let old = (case map_of acc d of None \<Rightarrow> default_stats | Some st \<Rightarrow> st);
                 m = matched_count idx row in
             \<lparr>total_score = total_score old +
                 real m / real (length idx) * 100 * (if m = length idx then 2 else 1)
                   * (if sum_list row = 1 \<and> m = 1 then 3 / 2 else 1)
                   * (1 + real (freqs d) / 10000),
               match_count = match_count old + m,
               case_count = case_count old + 1,
               exact_matches = exact_matches old + (if m = length idx then 1 else 0),
               single_symptom_matches =
                 single_symptom_matches old + (if sum_list row = 1 \<and> m = 1 then 1 else 0)\<rparr>)))
   \<and> (distinct idx \<and> set row \<subseteq> {0, 1} \<longrightarrow>
        ((sum_list row = 1 \<and> matched_count idx row = 1) \<longleftrightarrow> one_present_and_matched idx row))"
proof (intro conjI impI)
  assume "matched_count idx row = 0"
  then show "score_row idx freqs (d, row) acc = acc" by (simp add: score_row_def)
next
  assume "matched_count idx row \<noteq> 0"
  then show "map_of (score_row idx freqs (d, row) acc) =
          (map_of acc)(d \<mapsto>
            (let old = (case map_of acc d of None \<Rightarrow> default_stats | Some st \<Rightarrow> st);
                 m = matched_count idx row in
             \<lparr>total_score = total_score old +
                 real m / real (length idx) * 100 * (if m = length idx then 2 else 1)
                   * (if sum_list row = 1 \<and> m = 1 then 3 / 2 else 1)
                   * (1 + real (freqs d) / 10000),
               match_count = match_count old + m,
               case_count = case_count old + 1,
               exact_matches = exact_matches old + (if m = length idx then 1 else 0),
               single_symptom_matches =
                 single_symptom_matches old + (if sum_list row = 1 \<and> m = 1 then 1 else 0)\<rparr>))"
    unfolding score_row_def Let_def fst_conv snd_conv
    by (simp only: if_False map_of_upd_stats stats_update_eq row_score_product) simp
next
  assume "distinct idx \<and> set row \<subseteq> {0, 1}"
  then show "(sum_list row = 1 \<and> matched_count idx row = 1) \<longleftrightarrow> one_present_and_matched idx row"
    using single_condition_iff by blast
qed

text \<open>
  Claim C3 as stated fails when two input names resolve to the same column. Both \<open>fever\<close>
  and \<open>Fever\<close> resolve to column 0; the row \<open>[1, 0]\<close> has exactly one symptom present and it
  is matched, but \<open>matched\<close> is 2, so the code gives no 1.5 bonus: it adds 200.02 where the
  claim's formula gives 300.03.
\<close>

theorem C3_claimed_bonus_counterexample:
  "find_symptom_indices [''fever'', ''Fever''] [''fever'', ''cough''] = [0, 0]
   \<and> one_present_and_matched [0, 0] [1, 0]
   \<and> score_row [0, 0] (\<lambda>_. 1) (''Flu'', [1, 0]) [] =
       [(''Flu'', \<lparr>total_score = 10001 / 50, match_count = 2, case_count = 1, exact_matches = 1,
                  single_symptom_matches = 0\<rparr>)]
   \<and> claimed_row_score [0, 0] [1, 0] 1 = 30003 / 100
   \<and> (10001 / 50 :: real) \<noteq> 30003 / 100"
  by code_simp

theorem C3_row_contribution_witness:
  "matched_count [0, 1] [1, 0] \<noteq> 0 \<and> distinct [0, 1 :: nat] \<and> set [1, 0 :: int] \<subseteq> {0, 1}
   \<and> map_of (score_row [0, 1] (\<lambda>_. 2) (''Flu'', [1, 0]) []) ''Flu'' =
       Some \<lparr>total_score = 75015 / 1000, match_count = 1, case_count = 1, exact_matches = 0,
             single_symptom_matches = 1\<rparr>
   \<and> one_present_and_matched [0, 1] [1, 0]"
proof -
  have m: "matched_count [0, 1] [1, 0] = 1" by code_simp
  have s: "sum_list [1, 0 :: int] = 1" by simp
  have d: "distinct [0, 1 :: nat] \<and> set [1, 0 :: int] \<subseteq> {0, 1}" by simp
  from C3_row_contribution [of "[0, 1]" "[1, 0]" "\<lambda>_. 2" "''Flu''" "[]"] m s d
  show ?thesis by (simp add: default_stats_def Let_def)
qed

section \<open>Engine B: properties\<close>

subsection \<open>Errors and defaults\<close>

lemma example_run_B:
  "diagnose_B (\<lambda>_. None) example_profiles example_report = Inr [example_Strep, example_Common_Cold]"
  by code_simp

lemma example_run_top:
  "get_differential_diagnosis (\<lambda>_. None) example_profiles example_report 1 30 = Inr [example_Strep]"
  by code_simp

text \<open>
  Claim C5. \<open>match_expectation\<close> does not return a score for every pair of values: on a numeric
  range whose nearest bound is zero and an actual value outside the range on that side, the
  division by the bound raises \<open>ZeroDivisionError\<close>, which the \<open>try\<close> does not catch, and the
  error leaves \<open>diagnose\<close> and \<open>get_differential_diagnosis\<close> too.
\<close>

theorem C5_zero_bound_raises:
  "match_expectation fs (JList [JInt 0, JInt 10]) (JInt (- 1)) = Inl ZeroDivisionError
   \<and> match_expectation fs (JList [JInt (- 5), JInt 0]) (JInt 3) = Inl ZeroDivisionError
   \<and> get_differential_diagnosis fs zero_bound_profiles zero_bound_report 5 10 = Inl ZeroDivisionError"
proof (intro conjI)
  show a: "match_expectation fs (JList [JInt 0, JInt 10]) (JInt (- 1)) = Inl ZeroDivisionError"
    by (simp add: match_expectation_def range_score_def is_number_def int_overflows_def)
  show "match_expectation fs (JList [JInt (- 5), JInt 0]) (JInt 3) = Inl ZeroDivisionError"
    by (simp add: match_expectation_def range_score_def is_number_def int_overflows_def)
  have "calculate_symptom_match_score fs
          \<lparr>importance = Some (4 / 5), note_text = None,
           expectations = Some [(''intensity'', JList [JInt 0, JInt 10])]\<rparr>
          [''intensity'' \<mapsto> JInt (- 1)] = Inl ZeroDivisionError"
    by (simp add: calculate_symptom_match_score_def a)
  then show "get_differential_diagnosis fs zero_bound_profiles zero_bound_report 5 10 = Inl ZeroDivisionError"
    by (simp add: get_differential_diagnosis_def diagnose_B_def zero_bound_profiles_def
        zero_bound_report_def score_disease_def score_symptom_def empty_tally_def)
qed

text \<open>The half of claim C5 about Engine A: an index beyond the end of a row is skipped.\<close>

lemma matched_count_skips_short_rows:
  "matched_count idx row = matched_count (filter (\<lambda>i. i < length row) idx) row"
  by (simp add: matched_count_def conj_commute)

lemma calculate_default_importance:
  "calculate_symptom_match_score fs (with_default_importance c) pd = calculate_symptom_match_score fs c pd"
  by (simp add: calculate_symptom_match_score_def with_default_importance_def)

lemma calculate_importance_update:
  "calculate_symptom_match_score fs (c\<lparr>importance := x\<rparr>) pd = calculate_symptom_match_score fs c pd"
  by (simp add: calculate_symptom_match_score_def)

lemma score_symptom_default_importance:
  "score_symptom fs pat (n, with_default_importance c) t = score_symptom fs pat (n, c) t"
proof -
  have eff: "(case importance (with_default_importance c) of None \<Rightarrow> 1 / 2 | Some i \<Rightarrow> i)
             = (case importance c of None \<Rightarrow> 1 / 2 | Some i \<Rightarrow> i)"
    by (simp add: with_default_importance_def split: option.splits)
  have nt: "note_text (with_default_importance c) = note_text c"
    by (simp add: with_default_importance_def)
  show ?thesis
    unfolding score_symptom_def Let_def fst_conv snd_conv eff nt calculate_default_importance ..
qed

lemma fold_err_map: "fold_err f (map g xs) t = fold_err (\<lambda>x. f (g x)) xs t"
  by (induction xs arbitrary: t) (auto split: sum.splits)

lemma fold_err_cong_set:
  "(\<And>x t. x \<in> set xs \<Longrightarrow> f x t = g x t) \<Longrightarrow> fold_err f xs t = fold_err g xs t"
  by (induction xs arbitrary: t) (auto split: sum.splits)

lemma fold_err_default_importance:
  "fold_err (score_symptom fs pat) (map (\<lambda>sc. (fst sc, with_default_importance (snd sc))) l) t
   = fold_err (score_symptom fs pat) l t"
proof -
  have "(\<lambda>x. score_symptom fs pat (fst x, with_default_importance (snd x))) = score_symptom fs pat"
  proof (intro ext)
    fix x :: "string \<times> symptom_config" and t :: tally
    show "score_symptom fs pat (fst x, with_default_importance (snd x)) t = score_symptom fs pat x t"
      using score_symptom_default_importance [of fs pat "fst x" "snd x" t] by simp
  qed
  then show ?thesis by (simp add: fold_err_map)
qed

lemma score_disease_with_defaults:
  "score_disease fs pat (n, with_defaults d) = score_disease fs pat (n, d)"
proof -
  have sy: "(case symptoms (with_defaults d) of None \<Rightarrow> [] | Some s \<Rightarrow> s)
            = map (\<lambda>sc. (fst sc, with_default_importance (snd sc)))
                (case symptoms d of None \<Rightarrow> [] | Some s \<Rightarrow> s)"
    by (simp add: with_defaults_def split: option.splits)
  have pv: "(case prevalence (with_defaults d) of None \<Rightarrow> 1 / 20 | Some p \<Rightarrow> p)
            = (case prevalence d of None \<Rightarrow> 1 / 20 | Some p \<Rightarrow> p)"
    by (simp add: with_defaults_def split: option.splits)
  have cn: "common_name (with_defaults d) = common_name d"
    by (simp add: with_defaults_def)
  have ct: "(case category (with_defaults d) of None \<Rightarrow> ''General'' | Some c \<Rightarrow> c)
            = (case category d of None \<Rightarrow> ''General'' | Some c \<Rightarrow> c)"
    by (simp add: with_defaults_def split: option.splits)
  show ?thesis
    unfolding score_disease_def Let_def fst_conv snd_conv sy pv cn ct map_is_Nil_conv
      fold_err_default_importance ..
qed

lemma collect_results_with_defaults:
  "collect_results fs pat (map (\<lambda>nd. (fst nd, with_defaults (snd nd))) profiles)
   = collect_results fs pat profiles"
proof (induction profiles)
  case Nil
  then show ?case by simp
next
  case (Cons nd profiles)
  have "score_disease fs pat (fst nd, with_defaults (snd nd)) = score_disease fs pat nd"
    using score_disease_with_defaults [of fs pat "fst nd" "snd nd"] by simp
  with Cons.IH show ?case by (simp split: sum.splits)
qed

text \<open>
  Claim C1, amended. A symptom entry without \<open>importance\<close> is scored as if it had importance
  0.5, as a profile without \<open>prevalence\<close> is scored with 0.05 and one without \<open>category\<close> is
  reported as \<open>General\<close>: writing these defaults into the profiles changes no result.
\<close>

theorem C1_importance_defaults_to_one_half:
  "diagnose_B fs (map (\<lambda>nd. (fst nd, with_defaults (snd nd))) profiles) pat = diagnose_B fs profiles pat"
  by (simp add: diagnose_B_def collect_results_with_defaults)

text \<open>
  Claim C1 as stated fails: for an entry without \<open>importance\<close> the engine raises no error, it
  substitutes 0.5. The matched entry of the result reports \<open>round(0.5 * 100) = 50\<close>.
\<close>

theorem C1_missing_importance_counterexample:
  "diagnose_B (\<lambda>_. None) example_bare_profiles example_fever_report = Inr
     [\<lparr>d_disease = ''Flu'', d_common_name = ''Flu'', d_category = ''General'', confidence = 100,
       d_matched_symptoms = [\<lparr>sm_symptom = ''Fever'', sm_match_quality = 100, sm_importance = 50\<rparr>],
       d_partially_matched = [], d_missing_symptoms = [], d_negative_matches = [],
       explanation = ''Strong match on: Fever''\<rparr>]"
  by code_simp

subsection \<open>Filtering and negative importance\<close>

lemma sorted_wrt_filter_take:
  "sorted_wrt P xs \<Longrightarrow> sorted_wrt P (take n (filter Q xs))"
  by (simp add: sorted_wrt_take sorted_wrt_filter)

text \<open>
  Claim C7. Whenever \<open>diagnose\<close> returns and \<open>top_n \<ge> 1\<close>, \<open>get_differential_diagnosis\<close>
  returns at most \<open>top_n\<close> entries, each of confidence at least \<open>min_confidence\<close>: the first
  \<open>top_n\<close> of the entries of the diagnosis list that pass the filter, and that list is sorted by
  non-increasing confidence.
\<close>

theorem C7_top_differential:
  assumes run: "diagnose_B fs profiles pat = Inr all_diagnoses" and pos: "1 \<le> top_n"
  shows "\<exists>rs. get_differential_diagnosis fs profiles pat top_n min_confidence = Inr rs
    \<and> int (length rs) \<le> top_n
    \<and> (\<forall>r\<in>set rs. min_confidence \<le> confidence r)
    \<and> sorted_wrt (\<lambda>a b. confidence b \<le> confidence a) all_diagnoses
    \<and> rs = take (nat top_n) (filter (\<lambda>d. min_confidence \<le> confidence d) all_diagnoses)"
proof -
  define rs where "rs = take (nat top_n) (filter (\<lambda>d. min_confidence \<le> confidence d) all_diagnoses)"
  from run pos have res: "get_differential_diagnosis fs profiles pat top_n min_confidence = Inr rs"
    by (simp add: get_differential_diagnosis_def py_slice_to_def rs_def)
  have len: "int (length rs) \<le> top_n" using pos by (simp add: rs_def)
  have conf: "\<forall>r\<in>set rs. min_confidence \<le> confidence r"
    by (auto simp: rs_def dest: in_set_takeD)
  from run obtain results where "all_diagnoses = sort_desc confidence results"
    by (auto simp: diagnose_B_def split: sum.splits)
  then have srt: "sorted_wrt (\<lambda>a b. confidence b \<le> confidence a) all_diagnoses"
    by (simp add: sorted_wrt_sort_desc)
  from res len conf srt rs_def show ?thesis by blast
qed

theorem C7_top_differential_witness:
  "diagnose_B (\<lambda>_. None) example_profiles example_report = Inr [example_Strep, example_Common_Cold]
   \<and> get_differential_diagnosis (\<lambda>_. None) example_profiles example_report 1 30 = Inr [example_Strep]
   \<and> int (length [example_Strep]) \<le> 1
   \<and> 30 \<le> confidence example_Strep"
proof -
  have pos: "(1::int) \<le> 1" by simp
  from C7_top_differential [OF example_run_B pos, of 30]
  obtain rs where rs: "get_differential_diagnosis (\<lambda>_. None) example_profiles example_report 1 30 = Inr rs"
    and len: "int (length rs) \<le> 1"
    and conf: "\<forall>r\<in>set rs. 30 \<le> confidence r"
    by blast
  from rs example_run_top have "rs = [example_Strep]" by simp
  with len conf example_run_B example_run_top show ?thesis by simp
qed

lemma py_round_100: "py_round 100 1 = 100"
  by (simp add: py_round_def round_half_even_def)

text \<open>
  Claim C4. For a profile whose only symptom entry has a negative importance (the claim's
  \<open>-0.6\<close> is one): a report without that symptom yields the one diagnosis below, with one
  negative-match record and the confidence \<open>min(100, 100 * (1 + prevalence * 0.2))\<close> rounded to
  one decimal, which for a prevalence that is not negative is that value itself; a report with
  the symptom yields no diagnosis, the tally has no matched, partial or negative entry and the
  confidence computed from it is 0.
\<close>

theorem C4_negative_importance:
  assumes neg: "imp < 0"
  shows "(pat s = None \<longrightarrow>
           diagnose_B fs
             [(name, \<lparr>symptoms = Some [(s, \<lparr>importance = Some imp, note_text = nt, expectations = ex\<rparr>)],
                      prevalence = pv, common_name = cn, category = cat\<rparr>)] pat
           = Inr [\<lparr>d_disease = name,
                   d_common_name = (case cn of None \<Rightarrow> name | Some n \<Rightarrow> n),
                   d_category = (case cat of None \<Rightarrow> ''General'' | Some c \<Rightarrow> c),
                   confidence =
                     py_round (min 100 (100 * (1 + (case pv of None \<Rightarrow> 1 / 20 | Some p \<Rightarrow> p) * (1 / 5)))) 1,
                   d_matched_symptoms = [], d_partially_matched = [], d_missing_symptoms = [],
                   d_negative_matches =
                     [\<lparr>nm_symptom = s,
                       nm_note = (case nt of
                                    None \<Rightarrow> ''Absence of '' @ s @ '' supports this diagnosis''
                                  | Some n \<Rightarrow> n)\<rparr>],
                   explanation = (case nt of
                                    None \<Rightarrow> ''Absence of '' @ s @ '' supports this diagnosis''
                                  | Some n \<Rightarrow> n)\<rparr>]
           \<and> (0 \<le> (case pv of None \<Rightarrow> 1 / 20 | Some p \<Rightarrow> p) \<longrightarrow>
                py_round (min 100 (100 * (1 + (case pv of None \<Rightarrow> 1 / 20 | Some p \<Rightarrow> p) * (1 / 5)))) 1
                = min 100 (100 * (1 + (case pv of None \<Rightarrow> 1 / 20 | Some p \<Rightarrow> p) * (1 / 5)))))
       \<and> (pat s \<noteq> None \<longrightarrow>
           diagnose_B fs
             [(name, \<lparr>symptoms = Some [(s, \<lparr>importance = Some imp, note_text = nt, expectations = ex\<rparr>)],
                      prevalence = pv, common_name = cn, category = cat\<rparr>)] pat = Inr []
           \<and> fold_err (score_symptom fs pat)
                [(s, \<lparr>importance = Some imp, note_text = nt, expectations = ex\<rparr>)] empty_tally
              = Inr (empty_tally\<lparr>t_max_possible_score := \<bar>imp\<bar>\<rparr>)
           \<and> raw_confidence (case pv of None \<Rightarrow> 1 / 20 | Some p \<Rightarrow> p)
                (empty_tally\<lparr>t_max_possible_score := \<bar>imp\<bar>\<rparr>) = 0)"
proof (intro conjI impI)
  assume absent: "pat s = None"
  have tally: "fold_err (score_symptom fs pat)
                 [(s, \<lparr>importance = Some imp, note_text = nt, expectations = ex\<rparr>)] empty_tally
        = Inr \<lparr>t_total_score = \<bar>imp\<bar>, t_max_possible_score = \<bar>imp\<bar>, t_matched_symptoms = [],
               t_missing_symptoms = [], t_partially_matched = [],
               t_negative_matches =
                 [\<lparr>nm_symptom = s,
                   nm_note = (case nt of None \<Rightarrow> ''Absence of '' @ s @ '' supports this diagnosis''
                              | Some n \<Rightarrow> n)\<rparr>]\<rparr>"
    using neg absent by (simp add: score_symptom_def empty_tally_def Let_def)
  have conf: "raw_confidence prev
        \<lparr>t_total_score = \<bar>imp\<bar>, t_max_possible_score = \<bar>imp\<bar>, t_matched_symptoms = [],
         t_missing_symptoms = [], t_partially_matched = [], t_negative_matches = nm\<rparr>
        = min 100 (100 * (1 + prev * (1 / 5)))" for prev nm
    using neg by (simp add: raw_confidence_def Let_def)
  show "diagnose_B fs
             [(name, \<lparr>symptoms = Some [(s, \<lparr>importance = Some imp, note_text = nt, expectations = ex\<rparr>)],
                      prevalence = pv, common_name = cn, category = cat\<rparr>)] pat
           = Inr [\<lparr>d_disease = name,
                   d_common_name = (case cn of None \<Rightarrow> name | Some n \<Rightarrow> n),
                   d_category = (case cat of None \<Rightarrow> ''General'' | Some c \<Rightarrow> c),
                   confidence =
                     py_round (min 100 (100 * (1 + (case pv of None \<Rightarrow> 1 / 20 | Some p \<Rightarrow> p) * (1 / 5)))) 1,
                   d_matched_symptoms = [], d_partially_matched = [], d_missing_symptoms = [],
                   d_negative_matches =
                     [\<lparr>nm_symptom = s,
                       nm_note = (case nt of
                                    None \<Rightarrow> ''Absence of '' @ s @ '' supports this diagnosis''
                                  | Some n \<Rightarrow> n)\<rparr>],
                   explanation = (case nt of
                                    None \<Rightarrow> ''Absence of '' @ s @ '' supports this diagnosis''
                                  | Some n \<Rightarrow> n)\<rparr>]"
    by (simp add: diagnose_B_def score_disease_def tally conf sort_desc_def build_explanation_def Let_def
        del: fold_err.simps)
next
  assume "0 \<le> (case pv of None \<Rightarrow> 1 / 20 | Some p \<Rightarrow> p)"
  then have "min 100 (100 * (1 + (case pv of None \<Rightarrow> 1 / 20 | Some p \<Rightarrow> p) * (1 / 5))) = (100::real)"
    by (simp add: min_def)
  then show "py_round (min 100 (100 * (1 + (case pv of None \<Rightarrow> 1 / 20 | Some p \<Rightarrow> p) * (1 / 5)))) 1
                = min 100 (100 * (1 + (case pv of None \<Rightarrow> 1 / 20 | Some p \<Rightarrow> p) * (1 / 5)))"
    by (simp only: py_round_100)
next
  assume present: "pat s \<noteq> None"
  show tally: "fold_err (score_symptom fs pat)
                [(s, \<lparr>importance = Some imp, note_text = nt, expectations = ex\<rparr>)] empty_tally
              = Inr (empty_tally\<lparr>t_max_possible_score := \<bar>imp\<bar>\<rparr>)"
    using neg present by (simp add: score_symptom_def empty_tally_def Let_def)
  then show "diagnose_B fs
             [(name, \<lparr>symptoms = Some [(s, \<lparr>importance = Some imp, note_text = nt, expectations = ex\<rparr>)],
                      prevalence = pv, common_name = cn, category = cat\<rparr>)] pat = Inr []"
    by (simp add: diagnose_B_def score_disease_def sort_desc_def Let_def del: fold_err.simps)
       (simp add: empty_tally_def)
  show "raw_confidence (case pv of None \<Rightarrow> 1 / 20 | Some p \<Rightarrow> p)
                (empty_tally\<lparr>t_max_possible_score := \<bar>imp\<bar>\<rparr>) = 0"
    by (simp add: raw_confidence_def empty_tally_def Let_def)
qed

theorem C4_negative_importance_witness:
  "(- (3 / 5) :: real) < 0
   \<and> diagnose_B (\<lambda>_. None)
        [(''Strep'', \<lparr>symptoms = Some [(''Cough'', \<lparr>importance = Some (- (3 / 5)), note_text = None,
                                                    expectations = None\<rparr>)],
                       prevalence = Some (1 / 10), common_name = None, category = None\<rparr>)]
        Map.empty
      = Inr [\<lparr>d_disease = ''Strep'', d_common_name = ''Strep'', d_category = ''General'',
              confidence = 100,
              d_matched_symptoms = [], d_partially_matched = [], d_missing_symptoms = [],
              d_negative_matches =
                [\<lparr>nm_symptom = ''Cough'', nm_note = ''Absence of Cough supports this diagnosis''\<rparr>],
              explanation = ''Absence of Cough supports this diagnosis''\<rparr>]
   \<and> diagnose_B (\<lambda>_. None)
        [(''Strep'', \<lparr>symptoms = Some [(''Cough'', \<lparr>importance = Some (- (3 / 5)), note_text = None,
                                                    expectations = None\<rparr>)],
                       prevalence = Some (1 / 10), common_name = None, category = None\<rparr>)]
        [''Cough'' \<mapsto> Map.empty]
      = Inr []"
proof -
  have neg: "(- (3 / 5) :: real) < 0" by simp
  have a: "(Map.empty :: string \<rightharpoonup> (string \<rightharpoonup> json)) ''Cough'' = None" by simp
  have b: "[''Cough'' \<mapsto> (Map.empty :: string \<rightharpoonup> json)] ''Cough'' \<noteq> None" by simp
  have p: "(0::real) \<le> (case Some (1 / 10) of None \<Rightarrow> 1 / 20 | Some p \<Rightarrow> p)" by simp
  from C4_negative_importance [OF neg, where pat = Map.empty and s = "''Cough''" and fs = "\<lambda>_. None"
      and name = "''Strep''" and nt = None and ex = None and pv = "Some (1 / 10)" and cn = None
      and cat = None] a p
  have first: "diagnose_B (\<lambda>_. None)
        [(''Strep'', \<lparr>symptoms = Some [(''Cough'', \<lparr>importance = Some (- (3 / 5)), note_text = None,
                                                    expectations = None\<rparr>)],
                       prevalence = Some (1 / 10), common_name = None, category = None\<rparr>)]
        Map.empty
      = Inr [\<lparr>d_disease = ''Strep'', d_common_name = ''Strep'', d_category = ''General'',
              confidence = 100,
              d_matched_symptoms = [], d_partially_matched = [], d_missing_symptoms = [],
              d_negative_matches =
                [\<lparr>nm_symptom = ''Cough'', nm_note = ''Absence of Cough supports this diagnosis''\<rparr>],
              explanation = ''Absence of Cough supports this diagnosis''\<rparr>]"
    by (simp add: min_def py_round_100)
  from C4_negative_importance [OF neg, where pat = "[''Cough'' \<mapsto> Map.empty]" and s = "''Cough''"
      and fs = "\<lambda>_. None" and name = "''Strep''" and nt = None and ex = None
      and pv = "Some (1 / 10)" and cn = None and cat = None] b
  have second: "diagnose_B (\<lambda>_. None)
        [(''Strep'', \<lparr>symptoms = Some [(''Cough'', \<lparr>importance = Some (- (3 / 5)), note_text = None,
                                                    expectations = None\<rparr>)],
                       prevalence = Some (1 / 10), common_name = None, category = None\<rparr>)]
        [''Cough'' \<mapsto> Map.empty]
      = Inr []"
    by simp
  from neg first second show ?thesis by simp
qed

subsection \<open>Matching one expectation\<close>

text \<open>
  The branches of \<open>match_expectation\<close>, with the two ways the range branch raises. A bound
  that converts to a \<open>float\<close> is \<open>float_operand lo = Inr mn\<close>.
\<close>

lemma float_operand_as_number: "float_operand v = Inr x \<Longrightarrow> as_number v = Some x"
  by (cases v) (auto split: if_splits)

lemma match_expectation_absent: "match_expectation fs expected JNull = Inr 0"
  by (simp add: match_expectation_def)

lemma match_expectation_range:
  assumes lo: "float_operand lo = Inr mn" and hi: "float_operand hi = Inr mx"
    and act: "py_float fs actual = Inr a"
  shows "match_expectation fs (JList [lo, hi]) actual =
           (if mn \<le> a \<and> a \<le> mx then Inr 1
            else if a < mn then
              (if mn = 0 then Inl ZeroDivisionError else Inr (max 0 (1 - (mn - a) / mn * (1 / 2))))
            else
              (if mx = 0 then Inl ZeroDivisionError else Inr (max 0 (1 - (a - mx) / mx * (1 / 2)))))"
proof -
  from act have "actual \<noteq> JNull" by auto
  moreover from lo hi have "as_number lo = Some mn" "as_number hi = Some mx"
    by (simp_all add: float_operand_as_number)
  ultimately show ?thesis
    using lo hi act by (simp add: match_expectation_def range_score_def is_number_def Let_def)
qed

lemma match_expectation_range_rejected:
  assumes "is_number lo" "is_number hi"
    and "py_float fs actual = Inl ValueError \<or> py_float fs actual = Inl TypeError"
  shows "match_expectation fs (JList [lo, hi]) actual = Inr 0"
  using assms by (auto simp add: match_expectation_def range_score_def)

lemma match_expectation_range_overflow:
  assumes "is_number lo" "is_number hi" "py_float fs actual = Inl OverflowError"
  shows "match_expectation fs (JList [lo, hi]) actual = Inl OverflowError"
proof -
  from assms(3) have "actual \<noteq> JNull" by auto
  with assms show ?thesis by (simp add: match_expectation_def range_score_def)
qed

lemma match_expectation_list:
  assumes "\<not> (length es = 2 \<and> is_number (es ! 0) \<and> is_number (es ! 1))" "actual \<noteq> JNull"
  shows "match_expectation fs (JList es) actual = Inr (if py_in actual es then 1 else 0)"
  using assms by (auto simp add: match_expectation_def)

lemma match_expectation_bool:
  "match_expectation fs (JBool b) (JStr str)
     = Inr (if (py_lower str \<in> {''true'', ''yes'', ''1''}) = b then 1 else 0)"
  "match_expectation fs (JBool b) (JBool c) = Inr (if c = b then 1 else 0)"
  by (simp_all add: match_expectation_def Let_def)

lemma match_expectation_examples:
  "match_expectation fs (JList [JFloat 98, JFloat (1004 / 10)]) (JFloat 99) = Inr 1"
  "match_expectation fs (JList [JFloat 98, JFloat (1004 / 10)]) (JFloat 105) = Inr (981 / 1004)"
  "match_expectation fs (JBool True) (JStr ''yes'') = Inr 1"
  "match_expectation fs (JList [JStr ''mild'', JStr ''severe'']) (JStr ''moderate'') = Inr 0"
proof -
  show "match_expectation fs (JList [JFloat 98, JFloat (1004 / 10)]) (JFloat 99) = Inr 1"
    by (simp add: match_expectation_def range_score_def is_number_def)
  show "match_expectation fs (JList [JFloat 98, JFloat (1004 / 10)]) (JFloat 105) = Inr (981 / 1004)"
    by (simp add: match_expectation_def range_score_def is_number_def)
  show "match_expectation fs (JBool True) (JStr ''yes'') = Inr 1"
    by (simp add: match_expectation_def py_lower_def lower_char_def)
  show "match_expectation fs (JList [JStr ''mild'', JStr ''severe'']) (JStr ''moderate'') = Inr 0"
    by (simp add: match_expectation_def is_number_def py_in_def)
qed

text \<open>
  Claim C2. \<open>match_expectation\<close> does not give the partial credit
  \<open>max(0, 1 - distance / boundary * 0.5)\<close> to every numeric actual value outside a range: where
  the bound it missed is zero the division raises \<open>ZeroDivisionError\<close>, and an \<open>int\<close> too large
  for a \<open>float\<close> raises \<open>OverflowError\<close>; the \<open>except\<close> catches neither. The four examples of
  the specification evaluate as it says.
\<close>

theorem C2_partial_credit_raises:
  "match_expectation fs (JList [JInt 0, JInt 10]) (JFloat (- (1 / 2))) = Inl ZeroDivisionError
   \<and> match_expectation fs (JList [JFloat (- 3), JFloat 0]) (JInt 2) = Inl ZeroDivisionError
   \<and> match_expectation fs (JList [JInt 1, JInt 10]) (JInt (10 ^ 309)) = Inl OverflowError
   \<and> match_expectation fs (JList [JFloat 98, JFloat (1004 / 10)]) (JFloat 99) = Inr 1
   \<and> match_expectation fs (JList [JFloat 98, JFloat (1004 / 10)]) (JFloat 105) = Inr (981 / 1004)
   \<and> (0 :: real) < 981 / 1004 \<and> (981 / 1004 :: real) < 1
   \<and> match_expectation fs (JBool True) (JStr ''yes'') = Inr 1
   \<and> match_expectation fs (JList [JStr ''mild'', JStr ''severe'']) (JStr ''moderate'') = Inr 0"
proof (intro conjI)
  show "match_expectation fs (JList [JInt 0, JInt 10]) (JFloat (- (1 / 2))) = Inl ZeroDivisionError"
    by (simp add: match_expectation_def range_score_def is_number_def int_overflows_def)
  show "match_expectation fs (JList [JFloat (- 3), JFloat 0]) (JInt 2) = Inl ZeroDivisionError"
    by (simp add: match_expectation_def range_score_def is_number_def int_overflows_def)
  show "match_expectation fs (JList [JInt 1, JInt 10]) (JInt (10 ^ 309)) = Inl OverflowError"
    by (simp add: match_expectation_def range_score_def is_number_def int_overflows_def)
  show "(0 :: real) < 981 / 1004" by simp
  show "(981 / 1004 :: real) < 1" by simp
qed (simp_all only: match_expectation_examples)

subsection \<open>The \<open>present\<close> attribute\<close>

lemma score_expectations_present:
  "''present'' \<notin> fst ` set exps \<Longrightarrow>
   score_expectations fs exps (d(''present'' := v)) acc = score_expectations fs exps d acc"
proof (induction exps arbitrary: acc)
  case Nil
  then show ?case by simp
next
  case (Cons kv exps)
  obtain k e where kv: "kv = (k, e)" by (cases kv)
  obtain tw ws where acc: "acc = (tw, ws)" by (cases acc)
  from Cons.prems kv have k: "k \<noteq> ''present''" and rest: "''present'' \<notin> fst ` set exps" by auto
  from k have look: "(d(''present'' := v)) k = d k" by simp
  show ?case
    unfolding kv acc score_expectations.simps look Let_def
    by (simp add: Cons.IH [OF rest] split: sum.splits)
qed

lemma calculate_present:
  assumes "''present'' \<notin> fst ` set (case expectations c of None \<Rightarrow> [] | Some e \<Rightarrow> e)"
  shows "calculate_symptom_match_score fs c (d(''present'' := v)) = calculate_symptom_match_score fs c d"
  unfolding calculate_symptom_match_score_def Let_def score_expectations_present [OF assms] ..

lemma score_symptom_present:
  assumes rep: "p s = Some d"
    and exp: "n = s \<longrightarrow> ''present'' \<notin> fst ` set (case expectations c of None \<Rightarrow> [] | Some e \<Rightarrow> e)"
  shows "score_symptom fs (p(s \<mapsto> d(''present'' := v))) (n, c) t = score_symptom fs p (n, c) t"
proof (cases "n = s")
  case True
  with exp have calc: "calculate_symptom_match_score fs c (d(''present'' := v))
                       = calculate_symptom_match_score fs c d"
    by (simp add: calculate_present)
  show ?thesis
    unfolding score_symptom_def Let_def fst_conv snd_conv
    using True rep by (simp add: calc)
next
  case False
  then have "(p(s \<mapsto> d(''present'' := v))) n = p n" by simp
  then show ?thesis
    unfolding score_symptom_def Let_def fst_conv snd_conv by simp
qed

lemma score_disease_present:
  assumes rep: "p s = Some d"
    and exp: "\<forall>sc\<in>set (case symptoms dd of None \<Rightarrow> [] | Some l \<Rightarrow> l).
                fst sc = s \<longrightarrow>
                ''present'' \<notin> fst ` set (case expectations (snd sc) of None \<Rightarrow> [] | Some e \<Rightarrow> e)"
  shows "score_disease fs (p(s \<mapsto> d(''present'' := v))) (name, dd) = score_disease fs p (name, dd)"
proof -
  have "fold_err (score_symptom fs (p(s \<mapsto> d(''present'' := v))))
          (case symptoms dd of None \<Rightarrow> [] | Some l \<Rightarrow> l) t
        = fold_err (score_symptom fs p) (case symptoms dd of None \<Rightarrow> [] | Some l \<Rightarrow> l) t" for t
  proof (rule fold_err_cong_set)
    fix x t assume x: "x \<in> set (case symptoms dd of None \<Rightarrow> [] | Some l \<Rightarrow> l)"
    with exp have "fst x = s \<longrightarrow>
        ''present'' \<notin> fst ` set (case expectations (snd x) of None \<Rightarrow> [] | Some e \<Rightarrow> e)"
      by blast
    from score_symptom_present [where p = p and s = s and d = d and n = "fst x" and c = "snd x"
        and fs = fs and v = v and t = t] rep this
    show "score_symptom fs (p(s \<mapsto> d(''present'' := v))) x t = score_symptom fs p x t" by simp
  qed
  then show ?thesis
    unfolding score_disease_def Let_def fst_conv snd_conv by simp
qed

text \<open>
  Claim C10. For a symptom \<open>s\<close> that the report holds, changing or removing the value of its
  \<open>present\<close> attribute changes nothing in the result of \<open>diagnose\<close>, provided no disease
  expects anything of the key \<open>present\<close> for \<open>s\<close>: whether a symptom is reported is decided by
  its key alone.
\<close>

theorem C10_present_value_ignored:
  assumes rep: "p s = Some d"
    and exp: "\<forall>nd\<in>set profiles. \<forall>sc\<in>set (case symptoms (snd nd) of None \<Rightarrow> [] | Some l \<Rightarrow> l).
                fst sc = s \<longrightarrow>
                ''present'' \<notin> fst ` set (case expectations (snd sc) of None \<Rightarrow> [] | Some e \<Rightarrow> e)"
  shows "diagnose_B fs profiles (p(s \<mapsto> d(''present'' := v))) = diagnose_B fs profiles p"
proof -
  from exp have "collect_results fs (p(s \<mapsto> d(''present'' := v))) profiles = collect_results fs p profiles"
  proof (induction profiles)
    case Nil
    then show ?case by simp
  next
    case (Cons nd profiles)
    from Cons.prems have here: "\<forall>sc\<in>set (case symptoms (snd nd) of None \<Rightarrow> [] | Some l \<Rightarrow> l).
                fst sc = s \<longrightarrow>
                ''present'' \<notin> fst ` set (case expectations (snd sc) of None \<Rightarrow> [] | Some e \<Rightarrow> e)"
      by simp
    from score_disease_present [where p = p and s = s and d = d and dd = "snd nd" and fs = fs
        and v = v and name = "fst nd"] rep here
    have sd: "score_disease fs (p(s \<mapsto> d(''present'' := v))) nd = score_disease fs p nd" by simp
    from Cons.prems have ih: "collect_results fs (p(s \<mapsto> d(''present'' := v))) profiles
                          = collect_results fs p profiles"
      by (intro Cons.IH) simp
    show ?case by (simp only: collect_results.simps sd ih)
  qed
  then show ?thesis by (simp add: diagnose_B_def)
qed

theorem C10_present_value_ignored_witness:
  "diagnose_B (\<lambda>_. None) example_profiles
     (example_report(''Fever'' \<mapsto> [''present'' \<mapsto> JBool True, ''intensity'' \<mapsto> JInt 8](''present'' := None)))
   = Inr [example_Strep, example_Common_Cold]
   \<and> diagnose_B (\<lambda>_. None) example_profiles
     (example_report(''Fever'' \<mapsto>
        [''present'' \<mapsto> JBool True, ''intensity'' \<mapsto> JInt 8](''present'' \<mapsto> JBool False)))
   = Inr [example_Strep, example_Common_Cold]"
proof -
  have rep: "example_report ''Fever'' = Some [''present'' \<mapsto> JBool True, ''intensity'' \<mapsto> JInt 8]"
    by (simp add: example_report_def)
  have exp: "\<forall>nd\<in>set example_profiles.
               \<forall>sc\<in>set (case symptoms (snd nd) of None \<Rightarrow> [] | Some l \<Rightarrow> l).
                 fst sc = ''Fever'' \<longrightarrow>
                 ''present'' \<notin> fst ` set (case expectations (snd sc) of None \<Rightarrow> [] | Some e \<Rightarrow> e)"
    by (simp add: example_profiles_def)
  from C10_present_value_ignored [where p = example_report and s = "''Fever''"
      and d = "[''present'' \<mapsto> JBool True, ''intensity'' \<mapsto> JInt 8]"
      and profiles = example_profiles and fs = "\<lambda>_. None" and v = None] rep exp
  have absent: "diagnose_B (\<lambda>_. None) example_profiles
     (example_report(''Fever'' \<mapsto> [''present'' \<mapsto> JBool True, ''intensity'' \<mapsto> JInt 8](''present'' := None)))
     = diagnose_B (\<lambda>_. None) example_profiles example_report"
    by blast
  from C10_present_value_ignored [where p = example_report and s = "''Fever''"
      and d = "[''present'' \<mapsto> JBool True, ''intensity'' \<mapsto> JInt 8]"
      and profiles = example_profiles and fs = "\<lambda>_. None" and v = "Some (JBool False)"] rep exp
  have changed: "diagnose_B (\<lambda>_. None) example_profiles
     (example_report(''Fever'' \<mapsto>
        [''present'' \<mapsto> JBool True, ''intensity'' \<mapsto> JInt 8](''present'' \<mapsto> JBool False)))
     = diagnose_B (\<lambda>_. None) example_profiles example_report"
    by blast
  from absent changed example_run_B show ?thesis by (simp only: simp_thms)
qed

end
